theory Spec2Isabelle
  imports Main "HOL-Library.Sublist"
begin

section \<open>The deploy command of shipctl (cmd/deploy.go)\<close>

text \<open>
  The deploy command reads the task definition a service runs, points every container
  image at a tag made for this deployment, registers the result as a new revision,
  moves the service to it, waits, and records the step in a history store.

  The embedding follows \<^verbatim>\<open>cmd/deploy.go\<close> function by function. What the file
  calls but does not define (the AWS SDK, the docker reference package, the ULID
  generator, and the packages \<^verbatim>\<open>lib/ecs\<close>, \<^verbatim>\<open>lib/logger\<close> and the history manager)
  is a parameter: a record of reply functions over a world state, so that every theorem
  holds for every behaviour of these collaborators.
\<close>

subsection \<open>Results of Go functions\<close>

text \<open>
  A Go \<^verbatim>\<open>error\<close> value is identified with its message. A function either returns
  a value, returns a non-nil error, or panics (a failed type assertion, an index out of
  range, a nil pointer dereference).
\<close>

datatype error = Error string

datatype 'a result = Returned 'a | Failed error | Panic

subsection \<open>Regular expressions\<close>

text \<open>
  \<^verbatim>\<open>regexp.MatchString\<close> on a pattern anchored by \<^verbatim>\<open>^\<close> and \<^verbatim>\<open>$\<close> decides
  membership of the whole string in the pattern's language; it is computed here with
  derivatives.
\<close>

datatype regexp =
    Null
  | Eps
  | Class "char list"
  | Cat regexp regexp
  | Alt regexp regexp
  | Star regexp

fun nullable :: "regexp \<Rightarrow> bool" where
  "nullable Null = False"
| "nullable Eps = True"
| "nullable (Class cs) = False"
| "nullable (Cat r s) = (nullable r \<and> nullable s)"
| "nullable (Alt r s) = (nullable r \<or> nullable s)"
| "nullable (Star r) = True"

fun deriv :: "char \<Rightarrow> regexp \<Rightarrow> regexp" where
  "deriv c Null = Null"
| "deriv c Eps = Null"
| "deriv c (Class cs) = (if c \<in> set cs then Eps else Null)"
| "deriv c (Cat r s) =
     (if nullable r then Alt (Cat (deriv c r) s) (deriv c s) else Cat (deriv c r) s)"
| "deriv c (Alt r s) = Alt (deriv c r) (deriv c s)"
| "deriv c (Star r) = Cat (deriv c r) (Star r)"

fun MatchString :: "regexp \<Rightarrow> string \<Rightarrow> bool" where
  "MatchString r [] = nullable r"
| "MatchString r (c # cs) = MatchString (deriv c r) cs"

text \<open>Pattern syntax: a literal string, \<^verbatim>\<open>r+\<close>, \<^verbatim>\<open>(a|b|c)\<close>, a sequence.\<close>

fun lit :: "string \<Rightarrow> regexp" where
  "lit [] = Eps"
| "lit (c # cs) = Cat (Class [c]) (lit cs)"

definition plus :: "regexp \<Rightarrow> regexp" where
  "plus r = Cat r (Star r)"

fun alts :: "string list \<Rightarrow> regexp" where
  "alts [] = Null"
| "alts (w # ws) = Alt (lit w) (alts ws)"

fun cats :: "regexp list \<Rightarrow> regexp" where
  "cats [] = Eps"
| "cats (r # rs) = Cat r (cats rs)"

text \<open>
  \<^verbatim>\<open>^[0-9]+\.dkr\.ecr\.(us|ca|eu|ap|sa)-(east|west|central|northeast|southeast|south)-[12]\.amazonaws\.com$\<close>
\<close>

definition ECRRegex :: regexp where
  "ECRRegex = cats
     [plus (Class ''0123456789''),
      lit ''.dkr.ecr.'',
      alts [''us'', ''ca'', ''eu'', ''ap'', ''sa''],
      lit ''-'',
      alts [''east'', ''west'', ''central'', ''northeast'', ''southeast'', ''south''],
      lit ''-'',
      Class ''12'',
      lit ''.amazonaws.com'']"

subsection \<open>Data\<close>

text \<open>
  \<^verbatim>\<open>ecs.ContainerDefinition\<close> and \<^verbatim>\<open>ecs.TaskDefinition\<close> of the AWS SDK. A field of
  type \<^verbatim>\<open>*string\<close> or \<^verbatim>\<open>*int64\<close> is an option: \<open>None\<close> is the nil pointer. The
  strings and numbers behind these pointers are never written through, so they are
  values. The deploy command reads \<open>Image\<close> only; the other container fields stand
  for the orchestration settings it passes on.
\<close>

record containerDefinition =
  ContainerName :: "string option"
  Image :: "string option"
  ContainerCpu :: "int option"
  ContainerMemory :: "int option"
  Essential :: "bool option"
  Command :: "string list"
  Environment :: "(string \<times> string) list"
  Links :: "string list"

record 'c ecsTaskDefinition =
  Compatibilities :: "string list"
  ContainerDefinitions :: "'c list"
  Cpu :: "string option"
  ExecutionRoleArn :: "string option"
  Family :: "string option"
  Memory :: "string option"
  NetworkMode :: "string option"
  PlacementConstraints :: "(string \<times> string) list"
  RequiresAttributes :: "string list"
  RequiresCompatibilities :: "string list"
  Revision :: "int option"
  Status :: "string option"
  TaskDefinitionArn :: "string option"
  TaskRoleArn :: "string option"
  Volumes :: "string list"

text \<open>
  \<^verbatim>\<open>ContainerDefinitions\<close> is a slice of pointers. In \<open>taskDefinition\<close> each
  pointer is read through: the task definition with its containers as values. The task
  definition as it lies in memory, with addresses in the slice, comes with the store
  below.
\<close>

type_synonym taskDefinition = "containerDefinition ecsTaskDefinition"

record dockerImage =
  Name :: string
  Tag :: string
  RepositoryName :: string
  HostName :: string

text \<open>
  What the code observes of the value \<^verbatim>\<open>reference.Parse\<close> returns: whether its
  dynamic type implements \<^verbatim>\<open>reference.Named\<close> (then \<^verbatim>\<open>Name()\<close> and the two results
  of \<^verbatim>\<open>reference.SplitHostname\<close>), and whether it implements \<^verbatim>\<open>reference.Tagged\<close>
  (then \<^verbatim>\<open>Tag()\<close>). A type assertion \<^verbatim>\<open>ref.(T)\<close> on a value that does not
  implement \<open>T\<close> panics.
\<close>

record named =
  NameOf :: string
  SplitHostname :: "string \<times> string"

record reference =
  asNamed :: "named option"
  asTagged :: "string option"

type_synonym parser = "string \<Rightarrow> error + reference"

subsection \<open>parseDockerImage, isECRHosted\<close>

definition parseDockerImage :: "parser \<Rightarrow> string \<Rightarrow> dockerImage result" where
  "parseDockerImage Parse imageStr =
     (case Parse imageStr of
        Inl err \<Rightarrow> Failed err
      | Inr ref \<Rightarrow>
          (case asNamed ref of
             None \<Rightarrow> Panic
           | Some n \<Rightarrow>
               (case asTagged ref of
                  None \<Rightarrow> Panic
                | Some t \<Rightarrow>
                    Returned \<lparr>Name = NameOf n, Tag = t,
                      RepositoryName = snd (SplitHostname n),
                      HostName = fst (SplitHostname n)\<rparr>)))"

definition isECRHosted :: "dockerImage \<Rightarrow> bool" where
  "isECRHosted img = MatchString ECRRegex (HostName img)"

subsection \<open>createNewTaskDefinition\<close>

text \<open>
  The loop over \<^verbatim>\<open>taskDef.ContainerDefinitions\<close>; \<open>containers\<close> is the slice the
  loop appends to. \<^verbatim>\<open>*v.Image\<close> on a nil pointer panics.
\<close>

fun rewriteLoop ::
  "parser \<Rightarrow> string \<Rightarrow> containerDefinition list \<Rightarrow> containerDefinition list \<Rightarrow>
   containerDefinition list result" where
  "rewriteLoop Parse uid [] containers = Returned containers"
| "rewriteLoop Parse uid (vp # rest) containers =
     (case Image vp of
        None \<Rightarrow> Panic
      | Some s \<Rightarrow>
          (case parseDockerImage Parse s of
             Failed err \<Rightarrow> Failed err
           | Panic \<Rightarrow> Panic
           | Returned img \<Rightarrow>
               if isECRHosted img
               then rewriteLoop Parse uid rest
                      (containers @ [vp\<lparr>Image := Some (Name img @ '':'' @ uid)\<rparr>])
               else rewriteLoop Parse uid rest containers))"

definition createNewTaskDefinition ::
  "parser \<Rightarrow> string \<Rightarrow> taskDefinition \<Rightarrow> taskDefinition result" where
  "createNewTaskDefinition Parse uid taskDef =
     (case rewriteLoop Parse uid (ContainerDefinitions taskDef) [] of
        Returned containers \<Rightarrow> Returned (taskDef\<lparr>ContainerDefinitions := containers\<rparr>)
      | Failed err \<Rightarrow> Failed err
      | Panic \<Rightarrow> Panic)"

subsection \<open>imageOptions\<close>

record imageOption =
  Opt_RepositoryName :: string
  Opt_Tag :: string

fun imageOptions_Get :: "imageOption list \<Rightarrow> string \<Rightarrow> imageOption option" where
  "imageOptions_Get [] repoName = None"
| "imageOptions_Get (v # vs) repoName =
     (if Opt_RepositoryName v = repoName then Some v else imageOptions_Get vs repoName)"

record deployCmd =
  cluster :: string
  serviceName :: string
  revision :: int
  images :: "imageOption list"
  backend :: string
  slackWebhookUrl :: string

subsection \<open>Requests and replies of the collaborators\<close>

text \<open>
  \<^verbatim>\<open>ecs.Service\<close> (of its deployments only the number is read),
  \<^verbatim>\<open>ecs.RegisterTaskDefinitionInput\<close>, and the ECR requests and replies.
\<close>

record service =
  Deployments :: "string list"
  ServiceArn :: "string option"
  TaskDefinition :: "string option"

record registerTaskDefinitionInput =
  Reg_ContainerDefinitions :: "containerDefinition list"
  Reg_Cpu :: "string option"
  Reg_ExecutionRoleArn :: "string option"
  Reg_Family :: "string option"
  Reg_Memory :: "string option"
  Reg_NetworkMode :: "string option"
  Reg_PlacementConstraints :: "(string \<times> string) list"
  Reg_TaskRoleArn :: "string option"
  Reg_Volumes :: "string list"
  Reg_RequiresCompatibilities :: "string list"

record imageIdentifier =
  ImageDigest :: "string option"
  ImageTag :: "string option"

record batchGetImageInput =
  ImageIds :: "imageIdentifier list"
  Get_RepositoryName :: "string option"
  AcceptedMediaTypes :: "string list"

record ecrImage =
  ImageId :: imageIdentifier
  ImageManifest :: "string option"

record imageFailure =
  FailureCode :: "string option"
  FailureReason :: "string option"

record batchGetImageOutput =
  Images :: "ecrImage list"
  Failures :: "imageFailure list"

record putImageInput =
  Put_ImageManifest :: "string option"
  Put_RepositoryName :: "string option"
  Put_ImageTag :: "string option"

subsection \<open>The collaborators and the trace of calls\<close>

text \<open>
  Every call that leaves \<^verbatim>\<open>deploy.go\<close> is answered by the environment: a function of
  the arguments and of the world \<open>'w\<close> (the platform, the registry, the history store,
  the clock), giving the reply and the next world. The two string functions
  \<^verbatim>\<open>reference.Parse\<close> and \<^verbatim>\<open>libecs.SpecifyRevision\<close> do not touch the world. The
  collaborators are taken to return; a pointer to a struct in a reply without error is
  taken to be non-nil.
\<close>

record 'w env =
  reference_Parse :: parser
  SpecifyRevision :: "int \<Rightarrow> string \<Rightarrow> error + string"
  getAWSRegion :: "'w \<Rightarrow> string \<times> 'w"
  NewSession :: "'w \<Rightarrow> error option \<times> 'w"
  NewHistoryManager :: "string \<Rightarrow> string \<Rightarrow> string \<Rightarrow> 'w \<Rightarrow> error option \<times> 'w"
  DescribeService :: "string \<Rightarrow> string \<Rightarrow> 'w \<Rightarrow> (error + service) \<times> 'w"
  NewULID :: "'w \<Rightarrow> string \<times> 'w"
  DescribeTaskDefinition :: "string \<Rightarrow> 'w \<Rightarrow> (error + taskDefinition) \<times> 'w"
  BatchGetImage :: "batchGetImageInput \<Rightarrow> 'w \<Rightarrow> (error + batchGetImageOutput) \<times> 'w"
  PutImage :: "putImageInput \<Rightarrow> 'w \<Rightarrow> error option \<times> 'w"
  RegisterTaskDefinition ::
    "registerTaskDefinitionInput \<Rightarrow> 'w \<Rightarrow> (error + taskDefinition) \<times> 'w"
  Log :: "string \<Rightarrow> 'w \<Rightarrow> unit \<times> 'w"
  Slack :: "string \<Rightarrow> string \<Rightarrow> 'w \<Rightarrow> unit \<times> 'w"
  UpdateService :: "service \<Rightarrow> taskDefinition \<Rightarrow> 'w \<Rightarrow> error option \<times> 'w"
  WaitUpdateService :: "string \<Rightarrow> string \<Rightarrow> 'w \<Rightarrow> error option \<times> 'w"
  PushState :: "int \<Rightarrow> string \<Rightarrow> 'w \<Rightarrow> error option \<times> 'w"

text \<open>An event is one call with its arguments and its reply.\<close>

datatype event =
    EvGetAWSRegion string
  | EvNewSession "error option"
  | EvNewHistoryManager string string string "error option"
  | EvDescribeService string string "error + service"
  | EvNewULID string
  | EvDescribeTaskDefinition string "error + taskDefinition"
  | EvBatchGetImage batchGetImageInput "error + batchGetImageOutput"
  | EvPutImage putImageInput "error option"
  | EvRegisterTaskDefinition registerTaskDefinitionInput "error + taskDefinition"
  | EvLog string unit
  | EvSlack string string unit
  | EvUpdateService service taskDefinition "error option"
  | EvWaitUpdateService string string "error option"
  | EvPushState int string "error option"

record 'w run =
  world :: 'w
  trace :: "event list"

definition call :: "('w \<Rightarrow> 'a \<times> 'w) \<Rightarrow> ('a \<Rightarrow> event) \<Rightarrow> 'w run \<Rightarrow> 'a \<times> 'w run" where
  "call f ev s =
     (case f (world s) of (a, w) \<Rightarrow> (a, \<lparr>world = w, trace = trace s @ [ev a]\<rparr>))"

subsection \<open>fmt.Sprintf with the verb %d\<close>

definition digitChar :: "nat \<Rightarrow> char" where
  "digitChar n = ''0123456789'' ! n"

function showNat :: "nat \<Rightarrow> string" where
  "showNat n = (if n < 10 then [digitChar n] else showNat (n div 10) @ [digitChar (n mod 10)])"
  by pat_completeness auto
termination
  by (relation "measure id") auto

declare showNat.simps [simp del]

definition fmt_d :: "int \<Rightarrow> string" where
  "fmt_d i = (if i < 0 then CHR ''-'' # showNat (nat (- i)) else showNat (nat i))"

subsection \<open>tagDockerImage, registerTaskDefinition\<close>

definition tagDockerImage ::
  "'w env \<Rightarrow> string \<Rightarrow> string \<Rightarrow> string \<Rightarrow> 'w run \<Rightarrow> unit result \<times> 'w run" where
  "tagDockerImage env repoName fromTag toTag s =
     (let params = \<lparr>ImageIds = [\<lparr>ImageDigest = None, ImageTag = Some fromTag\<rparr>],
                     Get_RepositoryName = Some repoName,
                     AcceptedMediaTypes =
                       [''application/vnd.docker.distribution.manifest.v1+json'',
                        ''application/vnd.docker.distribution.manifest.v2+json'',
                        ''application/vnd.oci.image.manifest.v1+json'']\<rparr>
      in case call (BatchGetImage env params) (EvBatchGetImage params) s of
           (Inl err, s1) \<Rightarrow> (Failed err, s1)
         | (Inr img, s1) \<Rightarrow>
             (case Images img of
                [] \<Rightarrow> (Panic, s1)
              | img0 # _ \<Rightarrow>
                  (let putParams = \<lparr>Put_ImageManifest = ImageManifest img0,
                                      Put_RepositoryName = Some repoName,
                                      Put_ImageTag = Some toTag\<rparr>
                   in case call (PutImage env putParams) (EvPutImage putParams) s1 of
                        (Some err, s2) \<Rightarrow> (Failed err, s2)
                      | (None, s2) \<Rightarrow> (Returned (), s2))))"

definition registerParams :: "taskDefinition \<Rightarrow> registerTaskDefinitionInput" where
  "registerParams taskDef =
     \<lparr>Reg_ContainerDefinitions = ContainerDefinitions taskDef,
      Reg_Cpu = Cpu taskDef,
      Reg_ExecutionRoleArn = ExecutionRoleArn taskDef,
      Reg_Family = Family taskDef,
      Reg_Memory = Memory taskDef,
      Reg_NetworkMode = NetworkMode taskDef,
      Reg_PlacementConstraints = PlacementConstraints taskDef,
      Reg_TaskRoleArn = TaskRoleArn taskDef,
      Reg_Volumes = Volumes taskDef,
      Reg_RequiresCompatibilities = RequiresCompatibilities taskDef\<rparr>"

definition registerTaskDefinition ::
  "'w env \<Rightarrow> taskDefinition \<Rightarrow> 'w run \<Rightarrow> taskDefinition result \<times> 'w run" where
  "registerTaskDefinition env taskDef s =
     (let params = registerParams taskDef
      in case call (RegisterTaskDefinition env params) (EvRegisterTaskDefinition params) s of
           (Inl err, s1) \<Rightarrow> (Failed err, s1)
         | (Inr res, s1) \<Rightarrow> (Returned res, s1))"

subsection \<open>execute\<close>

text \<open>Lines 66 to 76: the required flags.\<close>

definition checkFlags :: "deployCmd \<Rightarrow> error option" where
  "checkFlags f =
     (if cluster f = '''' then Some (Error ''--cluster is required'')
      else if serviceName f = '''' then Some (Error ''--service-name is required'')
      else if length (images f) = 0 then Some (Error ''--image is required'')
      else None)"

text \<open>
  Lines 78 to 108: region, session, history manager, the service and the check that
  no other deployment is running. \<^verbatim>\<open>ecs.New\<close> and \<^verbatim>\<open>ecr.New\<close> only build client
  values.
\<close>

definition connect :: "'w env \<Rightarrow> deployCmd \<Rightarrow> 'w run \<Rightarrow> service result \<times> 'w run" where
  "connect env f s =
     (case call (getAWSRegion env) EvGetAWSRegion s of
        (region, s1) \<Rightarrow>
          if region = '''' then
            (Failed (Error
               ''AWS region is not found. please set a AWS_DEFAULT_REGION or AWS_REGION''), s1)
          else
            (case call (NewSession env) EvNewSession s1 of
               (Some err, s2) \<Rightarrow> (Failed err, s2)
             | (None, s2) \<Rightarrow>
                 (case call (NewHistoryManager env (backend f) (cluster f) (serviceName f))
                         (EvNewHistoryManager (backend f) (cluster f) (serviceName f)) s2 of
                    (Some err, s3) \<Rightarrow> (Failed err, s3)
                  | (None, s3) \<Rightarrow>
                      (case call (DescribeService env (cluster f) (serviceName f))
                              (EvDescribeService (cluster f) (serviceName f)) s3 of
                         (Inl err, s4) \<Rightarrow> (Failed err, s4)
                       | (Inr svc, s4) \<Rightarrow>
                           if length (Deployments svc) > 1 then
                             (Failed (Error (serviceName f @ '' is currently deploying'')), s4)
                           else (Returned svc, s4)))))"

text \<open>Lines 135 to 150: the loop over the container definitions of the baseline.\<close>

fun retagLoop ::
  "'w env \<Rightarrow> deployCmd \<Rightarrow> string \<Rightarrow> containerDefinition list \<Rightarrow> 'w run \<Rightarrow>
   unit result \<times> 'w run" where
  "retagLoop env f uniqueID [] s = (Returned (), s)"
| "retagLoop env f uniqueID (v # rest) s =
     (case Image v of
        None \<Rightarrow> (Panic, s)
      | Some i \<Rightarrow>
          (case parseDockerImage (reference_Parse env) i of
             Failed err \<Rightarrow> (Failed err, s)
           | Panic \<Rightarrow> (Panic, s)
           | Returned img \<Rightarrow>
               (case imageOptions_Get (images f) (RepositoryName img) of
                  None \<Rightarrow>
                    (Failed (Error (''can not found image option '' @ RepositoryName img)), s)
                | Some opt \<Rightarrow>
                    (case tagDockerImage env (RepositoryName img) (Opt_Tag opt) uniqueID s of
                       (Failed err, s1) \<Rightarrow> (Failed err, s1)
                     | (Panic, s1) \<Rightarrow> (Panic, s1)
                     | (Returned u, s1) \<Rightarrow> retagLoop env f uniqueID rest s1))))"

text \<open>
  Lines 116 to 156: the baseline, the new task definition, the retagging and the
  registration. The result is the pair \<open>(taskDef, registerdTaskDef)\<close>.
\<close>

definition prepare ::
  "'w env \<Rightarrow> deployCmd \<Rightarrow> string \<Rightarrow> service \<Rightarrow> 'w run \<Rightarrow>
   (taskDefinition \<times> taskDefinition) result \<times> 'w run" where
  "prepare env f uniqueID svc s =
     (case TaskDefinition svc of
        None \<Rightarrow> (Panic, s)
      | Some arn \<Rightarrow>
          (case SpecifyRevision env (revision f) arn of
             Inl err \<Rightarrow> (Failed err, s)
           | Inr taskDefArn \<Rightarrow>
               (case call (DescribeTaskDefinition env taskDefArn)
                       (EvDescribeTaskDefinition taskDefArn) s of
                  (Inl err, s1) \<Rightarrow> (Failed err, s1)
                | (Inr taskDef, s1) \<Rightarrow>
                    (case createNewTaskDefinition (reference_Parse env) uniqueID taskDef of
                       Failed err \<Rightarrow> (Failed err, s1)
                     | Panic \<Rightarrow> (Panic, s1)
                     | Returned newTaskDef \<Rightarrow>
                         (case retagLoop env f uniqueID (ContainerDefinitions taskDef) s1 of
                            (Failed err, s2) \<Rightarrow> (Failed err, s2)
                          | (Panic, s2) \<Rightarrow> (Panic, s2)
                          | (Returned u, s2) \<Rightarrow>
                              (case registerTaskDefinition env newTaskDef s2 of
                                 (Failed err, s3) \<Rightarrow> (Failed err, s3)
                               | (Panic, s3) \<Rightarrow> (Panic, s3)
                               | (Returned registerdTaskDef, s3) \<Rightarrow>
                                   (Returned (taskDef, registerdTaskDef), s3)))))))"

text \<open>
  Lines 158 to 187: the announcement, the update of the service, the wait and the
  history entry. \<open>historyMessage\<close> is the second argument of \<^verbatim>\<open>PushState\<close>.
\<close>

definition newline :: string where
  "newline = [CHR 0x0A]"

definition deployMessage :: "int \<Rightarrow> int \<Rightarrow> string" where
  "deployMessage old new =
     ''deploy: revision '' @ fmt_d old @ '' -> '' @ fmt_d new @ newline"

definition historyMessage :: "int \<Rightarrow> int \<Rightarrow> string" where
  "historyMessage old new = ''deploy: '' @ fmt_d old @ '' -> '' @ fmt_d new"

definition rollout ::
  "'w env \<Rightarrow> deployCmd \<Rightarrow> service \<Rightarrow> taskDefinition \<Rightarrow> taskDefinition \<Rightarrow> 'w run \<Rightarrow>
   unit result \<times> 'w run" where
  "rollout env f svc taskDef registerdTaskDef s =
     (case Revision taskDef of
        None \<Rightarrow> (Panic, s)
      | Some old \<Rightarrow>
          (case Revision registerdTaskDef of
             None \<Rightarrow> (Panic, s)
           | Some new \<Rightarrow>
               (let msg = deployMessage old new;
                    s1 = snd (call (Log env msg) (EvLog msg) s);
                    s2 = snd (call (Slack env ''normal'' msg) (EvSlack ''normal'' msg) s1)
                in case call (UpdateService env svc registerdTaskDef)
                          (EvUpdateService svc registerdTaskDef) s2 of
                     (Some err, s3) \<Rightarrow> (Failed err, s3)
                   | (None, s3) \<Rightarrow>
                       (let upd = ''service updating'' @ newline;
                            s4 = snd (call (Log env upd) (EvLog upd) s3)
                        in case call (WaitUpdateService env (cluster f) (serviceName f))
                                  (EvWaitUpdateService (cluster f) (serviceName f)) s4 of
                             (Some err, s5) \<Rightarrow> (Failed err, s5)
                           | (None, s5) \<Rightarrow>
                               (case call (PushState env new (historyMessage old new))
                                       (EvPushState new (historyMessage old new)) s5 of
                                  (Some err, s6) \<Rightarrow> (Failed err, s6)
                                | (None, s6) \<Rightarrow>
                                    (let done = ''successfully updated'' @ newline;
                                         s7 = snd (call (Log env done) (EvLog done) s6);
                                         s8 = snd (call (Slack env ''good'' done)
                                                     (EvSlack ''good'' done) s7)
                                     in (Returned (), s8)))))))"

definition execute :: "'w env \<Rightarrow> deployCmd \<Rightarrow> 'w run \<Rightarrow> unit result \<times> 'w run" where
  "execute env f s =
     (case checkFlags f of
        Some err \<Rightarrow> (Failed err, s)
      | None \<Rightarrow>
          (case connect env f s of
             (Failed err, s1) \<Rightarrow> (Failed err, s1)
           | (Panic, s1) \<Rightarrow> (Panic, s1)
           | (Returned svc, s1) \<Rightarrow>
               (case call (NewULID env) EvNewULID s1 of
                  (uniqueID, s2) \<Rightarrow>
                    (case prepare env f uniqueID svc s2 of
                       (Failed err, s3) \<Rightarrow> (Failed err, s3)
                     | (Panic, s3) \<Rightarrow> (Panic, s3)
                     | (Returned (taskDef, registerdTaskDef), s3) \<Rightarrow>
                         rollout env f svc taskDef registerdTaskDef s3))))"

subsection \<open>createNewTaskDefinition on the store\<close>

text \<open>
  \<^verbatim>\<open>createNewTaskDefinition\<close> takes a pointer and works on copies. To see what it
  writes, the structs live in a store: an address is an index, \<^verbatim>\<open>&v\<close> of a fresh
  variable puts a new struct at the end, and reading through an address outside the
  store (nil) panics. \<^verbatim>\<open>newTaskDef := *taskDef\<close> and \<^verbatim>\<open>v := *vp\<close> read a struct
  into a local variable; the local \<open>v\<close> moves to the store when its address is
  appended, \<open>newTaskDef\<close> when its address is returned. The slice \<open>containers\<close>
  starts nil and grows by \<^verbatim>\<open>append\<close> only, so its array is its own and it is a
  value here.
\<close>

type_synonym ptr = nat

record store =
  TaskDefs :: "ptr ecsTaskDefinition list"
  ContainerDefs :: "containerDefinition list"

definition newContainerDef :: "containerDefinition \<Rightarrow> store \<Rightarrow> ptr \<times> store" where
  "newContainerDef v h =
     (length (ContainerDefs h), h\<lparr>ContainerDefs := ContainerDefs h @ [v]\<rparr>)"

definition newTaskDef :: "ptr ecsTaskDefinition \<Rightarrow> store \<Rightarrow> ptr \<times> store" where
  "newTaskDef t h = (length (TaskDefs h), h\<lparr>TaskDefs := TaskDefs h @ [t]\<rparr>)"

fun rewriteLoop_store ::
  "parser \<Rightarrow> string \<Rightarrow> ptr list \<Rightarrow> ptr list \<Rightarrow> store \<Rightarrow> ptr list result \<times> store" where
  "rewriteLoop_store Parse uid [] containers h = (Returned containers, h)"
| "rewriteLoop_store Parse uid (vp # rest) containers h =
     (if vp < length (ContainerDefs h) then
        (let v = ContainerDefs h ! vp
         in case Image v of
              None \<Rightarrow> (Panic, h)
            | Some s \<Rightarrow>
                (case parseDockerImage Parse s of
                   Failed err \<Rightarrow> (Failed err, h)
                 | Panic \<Rightarrow> (Panic, h)
                 | Returned img \<Rightarrow>
                     if isECRHosted img
                     then (case newContainerDef
                                  (v\<lparr>Image := Some (Name img @ '':'' @ uid)\<rparr>) h of
                             (p, h1) \<Rightarrow>
                               rewriteLoop_store Parse uid rest (containers @ [p]) h1)
                     else rewriteLoop_store Parse uid rest containers h))
      else (Panic, h))"

definition createNewTaskDefinition_store ::
  "parser \<Rightarrow> string \<Rightarrow> ptr \<Rightarrow> store \<Rightarrow> ptr result \<times> store" where
  "createNewTaskDefinition_store Parse uid taskDef h =
     (if taskDef < length (TaskDefs h) then
        (let copy = TaskDefs h ! taskDef
         in case rewriteLoop_store Parse uid (ContainerDefinitions copy) [] h of
              (Returned containers, h1) \<Rightarrow>
                (case newTaskDef (copy\<lparr>ContainerDefinitions := containers\<rparr>) h1 of
                   (p, h2) \<Rightarrow> (Returned p, h2))
            | (Failed err, h1) \<Rightarrow> (Failed err, h1)
            | (Panic, h1) \<Rightarrow> (Panic, h1))
      else (Panic, h))"

text \<open>Reading a task definition with its containers out of the store.\<close>

definition load :: "store \<Rightarrow> ptr \<Rightarrow> taskDefinition" where
  "load h p =
     (let t = TaskDefs h ! p
      in \<lparr>Compatibilities = Compatibilities t,
          ContainerDefinitions = map (\<lambda>vp. ContainerDefs h ! vp) (ContainerDefinitions t),
          Cpu = Cpu t,
          ExecutionRoleArn = ExecutionRoleArn t,
          Family = Family t,
          Memory = Memory t,
          NetworkMode = NetworkMode t,
          PlacementConstraints = PlacementConstraints t,
          RequiresAttributes = RequiresAttributes t,
          RequiresCompatibilities = RequiresCompatibilities t,
          Revision = Revision t,
          Status = Status t,
          TaskDefinitionArn = TaskDefinitionArn t,
          TaskRoleArn = TaskRoleArn t,
          Volumes = Volumes t\<rparr>)"

subsection \<open>Replies of the docker reference package\<close>

text \<open>
  The shapes of value \<^verbatim>\<open>reference.Parse\<close> returns for a name: without a tag a
  repository, which is \<^verbatim>\<open>Named\<close> only; with a tag a tagged reference, which is
  \<^verbatim>\<open>Named\<close> and \<^verbatim>\<open>Tagged\<close>. \<^verbatim>\<open>Name()\<close> joins domain and path.
\<close>

definition joinName :: "string \<Rightarrow> string \<Rightarrow> string" where
  "joinName domain path = (if domain = '''' then path else domain @ ''/'' @ path)"

definition repositoryRef :: "string \<Rightarrow> string \<Rightarrow> reference" where
  "repositoryRef domain path =
     \<lparr>asNamed = Some \<lparr>NameOf = joinName domain path, SplitHostname = (domain, path)\<rparr>,
      asTagged = None\<rparr>"

definition taggedRef :: "string \<Rightarrow> string \<Rightarrow> string \<Rightarrow> reference" where
  "taggedRef domain path tag =
     \<lparr>asNamed = Some \<lparr>NameOf = joinName domain path, SplitHostname = (domain, path)\<rparr>,
      asTagged = Some tag\<rparr>"

subsection \<open>The scenario of the specification\<close>

text \<open>
  A baseline with a container \<open>web\<close> on the registry and a container \<open>sidecar\<close> on
  another host, and collaborators that answer every call without error. The world has
  no state of its own here.
\<close>

definition ecrHost :: string where
  "ecrHost = ''123456789012.dkr.ecr.us-east-1.amazonaws.com''"

definition demoParse :: parser where
  "demoParse s =
     (if s = ecrHost @ ''/app:v1'' then Inr (taggedRef ecrHost ''app'' ''v1'')
      else if s = ''public.example/proxy:latest''
        then Inr (taggedRef ''public.example'' ''proxy'' ''latest'')
      else if s = ''nginx'' then Inr (repositoryRef [] ''nginx'')
      else Inl (Error ''invalid reference format''))"

definition web :: containerDefinition where
  "web = \<lparr>ContainerName = Some ''web'', Image = Some (ecrHost @ ''/app:v1''),
           ContainerCpu = Some 256, ContainerMemory = Some 512, Essential = Some True,
           Command = [''serve''], Environment = [(''PORT'', ''8080'')], Links = []\<rparr>"

definition sidecar :: containerDefinition where
  "sidecar = \<lparr>ContainerName = Some ''sidecar'', Image = Some ''public.example/proxy:latest'',
               ContainerCpu = Some 64, ContainerMemory = Some 128, Essential = Some False,
               Command = [], Environment = [], Links = [''web'']\<rparr>"

definition baselineWith :: "'c list \<Rightarrow> 'c ecsTaskDefinition" where
  "baselineWith cs =
     \<lparr>Compatibilities = [''EC2''], ContainerDefinitions = cs,
      Cpu = Some ''512'', ExecutionRoleArn = Some ''arn:aws:iam::123456789012:role/exec'',
      Family = Some ''app'', Memory = Some ''1024'', NetworkMode = Some ''bridge'',
      PlacementConstraints = [], RequiresAttributes = [],
      RequiresCompatibilities = [''EC2''], Revision = Some 1,
      Status = Some ''ACTIVE'',
      TaskDefinitionArn = Some ''arn:aws:ecs:us-east-1:123456789012:task-definition/app:1'',
      TaskRoleArn = Some ''arn:aws:iam::123456789012:role/task'',
      Volumes = [''data'']\<rparr>"

definition baseline :: taskDefinition where
  "baseline = baselineWith [web, sidecar]"

text \<open>The same baseline in a store: its struct at address 0, its containers at 0 and 1.\<close>

definition demoStore :: store where
  "demoStore = \<lparr>TaskDefs = [baselineWith [0, 1]], ContainerDefs = [web, sidecar]\<rparr>"

definition demoID :: string where
  "demoID = ''01ARZ3NDEKTSV4RRFFQ69G5FAV''"

definition demoService :: service where
  "demoService = \<lparr>Deployments = [''ecs-svc/1''], ServiceArn = Some ''arn:aws:ecs:svc'',
                   TaskDefinition = Some ''arn:aws:ecs:us-east-1:123456789012:task-definition/app:1''\<rparr>"

definition demoManifest :: ecrImage where
  "demoManifest = \<lparr>ImageId = \<lparr>ImageDigest = Some ''sha256:0a1b'', ImageTag = Some ''v1''\<rparr>,
                    ImageManifest = Some ''{schemaVersion: 2}''\<rparr>"

definition demoEnv :: "unit env" where
  "demoEnv =
     \<lparr>reference_Parse = demoParse,
      SpecifyRevision = (\<lambda>rev arn. Inr arn),
      getAWSRegion = (\<lambda>w. (''us-east-1'', w)),
      NewSession = (\<lambda>w. (None, w)),
      NewHistoryManager = (\<lambda>b c n w. (None, w)),
      DescribeService = (\<lambda>c n w. (Inr demoService, w)),
      NewULID = (\<lambda>w. (demoID, w)),
      DescribeTaskDefinition = (\<lambda>arn w. (Inr baseline, w)),
      BatchGetImage = (\<lambda>p w. (Inr \<lparr>Images = [demoManifest], Failures = []\<rparr>, w)),
      PutImage = (\<lambda>p w. (None, w)),
      RegisterTaskDefinition =
        (\<lambda>p w. (Inr ((baselineWith (Reg_ContainerDefinitions p))\<lparr>Revision := Some 2\<rparr>), w)),
      Log = (\<lambda>m w. ((), w)),
      Slack = (\<lambda>c m w. ((), w)),
      UpdateService = (\<lambda>sv t w. (None, w)),
      WaitUpdateService = (\<lambda>c n w. (None, w)),
      PushState = (\<lambda>r m w. (None, w))\<rparr>"

definition demoCmd :: deployCmd where
  "demoCmd = \<lparr>cluster = ''prod'', serviceName = ''app'', revision = 0,
               images = [\<lparr>Opt_RepositoryName = ''app'', Opt_Tag = ''v1''\<rparr>,
                         \<lparr>Opt_RepositoryName = ''proxy'', Opt_Tag = ''latest''\<rparr>],
               backend = ''SSM'', slackWebhookUrl = []\<rparr>"

definition start :: "unit run" where
  "start = \<lparr>world = (), trace = []\<rparr>"

subsection \<open>Notions of the specification\<close>

text \<open>
  The parsed image of a container, whether its host is the registry's, and whether a
  container is another one with the image pointed at the tag of the attempt.
\<close>

definition imageOf :: "parser \<Rightarrow> containerDefinition \<Rightarrow> dockerImage option" where
  "imageOf Parse c =
     (case Image c of
        None \<Rightarrow> None
      | Some s \<Rightarrow>
          (case parseDockerImage Parse s of
             Returned img \<Rightarrow> Some img
           | Failed err \<Rightarrow> None
           | Panic \<Rightarrow> None))"

definition hostInScope :: "parser \<Rightarrow> containerDefinition \<Rightarrow> bool" where
  "hostInScope Parse c =
     (case imageOf Parse c of Some img \<Rightarrow> isECRHosted img | None \<Rightarrow> False)"

definition rewrittenFrom ::
  "parser \<Rightarrow> string \<Rightarrow> containerDefinition \<Rightarrow> containerDefinition \<Rightarrow> bool" where
  "rewrittenFrom Parse uid c' c =
     (case imageOf Parse c of
        Some img \<Rightarrow> c' = c\<lparr>Image := Some (Name img @ '':'' @ uid)\<rparr>
      | None \<Rightarrow> False)"

text \<open>Kinds of events.\<close>

fun isSetup :: "event \<Rightarrow> bool" where
  "isSetup (EvGetAWSRegion r) = True"
| "isSetup (EvNewSession x) = True"
| "isSetup (EvNewHistoryManager b c n x) = True"
| "isSetup (EvDescribeService c n x) = True"
| "isSetup e = False"

fun isRetag :: "event \<Rightarrow> bool" where
  "isRetag (EvBatchGetImage p x) = True"
| "isRetag (EvPutImage p x) = True"
| "isRetag e = False"

fun isRegister :: "event \<Rightarrow> bool" where
  "isRegister (EvRegisterTaskDefinition p x) = True"
| "isRegister e = False"

fun isRollout :: "event \<Rightarrow> bool" where
  "isRollout (EvLog m u) = True"
| "isRollout (EvSlack c m u) = True"
| "isRollout (EvUpdateService sv t x) = True"
| "isRollout (EvWaitUpdateService c n x) = True"
| "isRollout (EvPushState r m x) = True"
| "isRollout e = False"

fun isNewULID :: "event \<Rightarrow> bool" where
  "isNewULID (EvNewULID u) = True"
| "isNewULID e = False"

fun isWait :: "event \<Rightarrow> bool" where
  "isWait (EvWaitUpdateService c n x) = True"
| "isWait e = False"

fun isPushState :: "event \<Rightarrow> bool" where
  "isPushState (EvPushState r m x) = True"
| "isPushState e = False"

text \<open>A call that changes the registry, the platform or the history store.\<close>

fun changesState :: "event \<Rightarrow> bool" where
  "changesState (EvPutImage p x) = True"
| "changesState (EvRegisterTaskDefinition p x) = True"
| "changesState (EvUpdateService sv t x) = True"
| "changesState (EvPushState r m x) = True"
| "changesState e = False"

text \<open>A call of the retag operation that writes under the tag \<open>uid\<close>, if it writes.\<close>

fun retagsTo :: "string \<Rightarrow> event \<Rightarrow> bool" where
  "retagsTo uid (EvBatchGetImage p x) = True"
| "retagsTo uid (EvPutImage p x) = (Put_ImageTag p = Some uid)"
| "retagsTo uid e = False"

text \<open>The successful write of a manifest under \<open>repo:tag\<close>.\<close>

fun wrote :: "string \<Rightarrow> string \<Rightarrow> event \<Rightarrow> bool" where
  "wrote repo tag (EvPutImage p x) =
     (Put_RepositoryName p = Some repo \<and> Put_ImageTag p = Some tag \<and> x = None)"
| "wrote repo tag e = False"

subsection \<open>The scenario, its requests and its trace\<close>

text \<open>
  The two requests \<^verbatim>\<open>tagDockerImage\<close> builds, and the events of the scenario in the
  order the calls are made.
\<close>

definition batchGetImageParams :: "string \<Rightarrow> string \<Rightarrow> batchGetImageInput" where
  "batchGetImageParams repoName fromTag =
     \<lparr>ImageIds = [\<lparr>ImageDigest = None, ImageTag = Some fromTag\<rparr>],
      Get_RepositoryName = Some repoName,
      AcceptedMediaTypes =
        [''application/vnd.docker.distribution.manifest.v1+json'',
         ''application/vnd.docker.distribution.manifest.v2+json'',
         ''application/vnd.oci.image.manifest.v1+json'']\<rparr>"

definition putImageParams :: "string option \<Rightarrow> string \<Rightarrow> string \<Rightarrow> putImageInput" where
  "putImageParams manifest repoName toTag =
     \<lparr>Put_ImageManifest = manifest, Put_RepositoryName = Some repoName,
      Put_ImageTag = Some toTag\<rparr>"

definition webNew :: containerDefinition where
  "webNew = web\<lparr>Image := Some (ecrHost @ ''/app:'' @ demoID)\<rparr>"

definition demoReply :: "error + batchGetImageOutput" where
  "demoReply = Inr \<lparr>Images = [demoManifest], Failures = []\<rparr>"

definition demoRegistered :: taskDefinition where
  "demoRegistered = (baselineWith [webNew])\<lparr>Revision := Some 2\<rparr>"

definition demoArn :: string where
  "demoArn = ''arn:aws:ecs:us-east-1:123456789012:task-definition/app:1''"

definition demoSetup :: "event list" where
  "demoSetup =
     [EvGetAWSRegion ''us-east-1'', EvNewSession None,
      EvNewHistoryManager ''SSM'' ''prod'' ''app'' None,
      EvDescribeService ''prod'' ''app'' (Inr demoService)]"

definition demoRetagWeb :: "event list" where
  "demoRetagWeb =
     [EvBatchGetImage (batchGetImageParams ''app'' ''v1'') demoReply,
      EvPutImage (putImageParams (ImageManifest demoManifest) ''app'' demoID) None]"

definition demoRetagSidecar :: "event list" where
  "demoRetagSidecar =
     [EvBatchGetImage (batchGetImageParams ''proxy'' ''latest'') demoReply,
      EvPutImage (putImageParams (ImageManifest demoManifest) ''proxy'' demoID) None]"

definition demoRegister :: event where
  "demoRegister =
     EvRegisterTaskDefinition (registerParams (baselineWith [webNew])) (Inr demoRegistered)"

definition demoPrepare :: "event list" where
  "demoPrepare =
     EvDescribeTaskDefinition demoArn (Inr baseline) # demoRetagWeb @ demoRetagSidecar @
     [demoRegister]"

definition demoAnnounce :: "event list" where
  "demoAnnounce =
     [EvLog (''deploy: revision 1 -> 2'' @ newline) (),
      EvSlack ''normal'' (''deploy: revision 1 -> 2'' @ newline) (),
      EvUpdateService demoService demoRegistered None,
      EvLog (''service updating'' @ newline) ()]"

definition demoFinish :: "event list" where
  "demoFinish =
     [EvLog (''successfully updated'' @ newline) (),
      EvSlack ''good'' (''successfully updated'' @ newline) ()]"

definition demoTrace :: "event list" where
  "demoTrace =
     demoSetup @ EvNewULID demoID # demoPrepare @ demoAnnounce @
     [EvWaitUpdateService ''prod'' ''app'' None, EvPushState 2 ''deploy: 1 -> 2'' None] @
     demoFinish"

text \<open>
  Three variations: the service has a second deployment running; the registry has no
  image under the tag asked for, which it reports in \<open>Failures\<close> with an empty list
  of images and no error; the deployer names the repository \<open>app\<close> only.
\<close>

definition busyService :: service where
  "busyService = demoService\<lparr>Deployments := [''ecs-svc/1'', ''ecs-svc/2'']\<rparr>"

definition busyEnv :: "unit env" where
  "busyEnv = demoEnv\<lparr>DescribeService := (\<lambda>c n w. (Inr busyService, w))\<rparr>"

definition notFoundReply :: "error + batchGetImageOutput" where
  "notFoundReply =
     Inr \<lparr>Images = [],
          Failures = [\<lparr>FailureCode = Some ''ImageNotFound'',
                       FailureReason = Some ''Requested image not found''\<rparr>]\<rparr>"

definition notFoundEnv :: "unit env" where
  "notFoundEnv = demoEnv\<lparr>BatchGetImage := (\<lambda>p w. (notFoundReply, w))\<rparr>"

definition appOnlyCmd :: deployCmd where
  "appOnlyCmd = demoCmd\<lparr>images := [\<lparr>Opt_RepositoryName = ''app'', Opt_Tag = ''v1''\<rparr>]\<rparr>"

text \<open>
  A fourth variation: the container \<open>sidecar\<close> runs the image \<^verbatim>\<open>nginx\<close>, a name
  without host and without tag.
\<close>

definition untaggedSidecar :: containerDefinition where
  "untaggedSidecar = sidecar\<lparr>Image := Some ''nginx''\<rparr>"

definition untaggedBaseline :: taskDefinition where
  "untaggedBaseline = baselineWith [web, untaggedSidecar]"

section \<open>Properties\<close>

subsection \<open>The scenario, evaluated\<close>

lemma ecrHost_matches: "MatchString ECRRegex ecrHost"
  unfolding ecrHost_def by code_simp

lemma public_no_match: "\<not> MatchString ECRRegex ''public.example''"
  by code_simp

lemma isECRHosted_ecrHost: "HostName img = ecrHost \<Longrightarrow> isECRHosted img"
  by (simp add: isECRHosted_def ecrHost_matches)

lemma isECRHosted_public: "HostName img = ''public.example'' \<Longrightarrow> \<not> isECRHosted img"
  by (simp only: isECRHosted_def public_no_match not_False_eq_True)

lemma parse_web:
  "parseDockerImage demoParse (ecrHost @ ''/app:v1'') =
     Returned \<lparr>Name = ecrHost @ ''/app'', Tag = ''v1'', RepositoryName = ''app'',
       HostName = ecrHost\<rparr>"
  by (simp add: parseDockerImage_def demoParse_def taggedRef_def joinName_def ecrHost_def)

lemma parse_sidecar:
  "parseDockerImage demoParse ''public.example/proxy:latest'' =
     Returned \<lparr>Name = ''public.example/proxy'', Tag = ''latest'', RepositoryName = ''proxy'',
       HostName = ''public.example''\<rparr>"
  by (simp add: parseDockerImage_def demoParse_def taggedRef_def joinName_def ecrHost_def)

lemma imageOf_web:
  "imageOf demoParse web =
     Some \<lparr>Name = ecrHost @ ''/app'', Tag = ''v1'', RepositoryName = ''app'',
       HostName = ecrHost\<rparr>"
  by (simp add: imageOf_def web_def parse_web)

lemma imageOf_sidecar:
  "imageOf demoParse sidecar =
     Some \<lparr>Name = ''public.example/proxy'', Tag = ''latest'', RepositoryName = ''proxy'',
       HostName = ''public.example''\<rparr>"
  by (simp add: imageOf_def sidecar_def parse_sidecar)

lemma hostInScope_web: "hostInScope demoParse web"
  by (simp add: hostInScope_def imageOf_web isECRHosted_ecrHost)

lemma hostInScope_sidecar: "\<not> hostInScope demoParse sidecar"
  by (simp add: hostInScope_def imageOf_sidecar isECRHosted_public)

lemma demo_transform:
  "createNewTaskDefinition demoParse demoID baseline = Returned (baselineWith [webNew])"
  by (simp add: createNewTaskDefinition_def baseline_def baselineWith_def web_def sidecar_def
      webNew_def parse_web parse_sidecar isECRHosted_ecrHost isECRHosted_public)

subsection \<open>parseDockerImage\<close>

lemma parseDockerImage_error:
  "Parse s = Inl err \<Longrightarrow> parseDockerImage Parse s = Failed err"
  by (simp add: parseDockerImage_def)

lemma parseDockerImage_tagged:
  "Parse s = Inr (taggedRef domain path tag) \<Longrightarrow>
   parseDockerImage Parse s =
     Returned \<lparr>Name = joinName domain path, Tag = tag, RepositoryName = path,
       HostName = domain\<rparr>"
  by (simp add: parseDockerImage_def taggedRef_def)

lemma parseDockerImage_Panic_iff:
  "parseDockerImage Parse s = Panic \<longleftrightarrow>
     (\<exists>ref. Parse s = Inr ref \<and> (asNamed ref = None \<or> asTagged ref = None))"
  by (auto simp: parseDockerImage_def split: sum.splits option.splits)

text \<open>
  C5. The claim: on every string the parser returns an image or fails with the error
  of the reference grammar, and never stops in another way. The code asserts
  \<^verbatim>\<open>ref.(reference.Tagged)\<close> without a check: for a name without a tag, which the
  grammar accepts, the reference package returns a value that is not \<^verbatim>\<open>Tagged\<close>, and
  the parser panics.
\<close>

theorem parseDockerImage_untagged_panics:
  "demoParse ''nginx'' = Inr (repositoryRef [] ''nginx'') \<and>
   parseDockerImage demoParse ''nginx'' = Panic"
  by (simp add: parseDockerImage_def demoParse_def repositoryRef_def ecrHost_def)

subsection \<open>createNewTaskDefinition\<close>

lemma rewriteLoop_Cons_Returned:
  assumes "rewriteLoop Parse uid (v # vs) acc = Returned cs"
  obtains img where "imageOf Parse v = Some img" and "isECRHosted img"
      and "rewriteLoop Parse uid vs (acc @ [v\<lparr>Image := Some (Name img @ '':'' @ uid)\<rparr>])
             = Returned cs"
    | img where "imageOf Parse v = Some img" and "\<not> isECRHosted img"
      and "rewriteLoop Parse uid vs acc = Returned cs"
  using assms
  by (auto simp: imageOf_def split: option.splits result.splits if_splits)

lemma rewriteLoop_Returned:
  "rewriteLoop Parse uid vs acc = Returned cs \<Longrightarrow>
   \<exists>ds. cs = acc @ ds \<and>
     list_all2 (rewrittenFrom Parse uid) ds (filter (hostInScope Parse) vs)"
proof (induction vs arbitrary: acc)
  case Nil
  then show ?case by simp
next
  case (Cons v vs)
  from Cons.prems show ?case
  proof (cases rule: rewriteLoop_Cons_Returned)
    case (1 img)
    let ?v = "v\<lparr>Image := Some (Name img @ '':'' @ uid)\<rparr>"
    from Cons.IH [OF 1(3)] obtain ds where ds: "cs = (acc @ [?v]) @ ds"
      "list_all2 (rewrittenFrom Parse uid) ds (filter (hostInScope Parse) vs)"
      by blast
    have "rewrittenFrom Parse uid ?v v"
      using 1(1) by (simp add: rewrittenFrom_def)
    moreover have "hostInScope Parse v"
      using 1(1,2) by (simp add: hostInScope_def)
    ultimately have
      "list_all2 (rewrittenFrom Parse uid) (?v # ds) (filter (hostInScope Parse) (v # vs))"
      using ds(2) by simp
    moreover have "cs = acc @ (?v # ds)"
      using ds(1) by simp
    ultimately show ?thesis by blast
  next
    case (2 img)
    have "\<not> hostInScope Parse v"
      using 2(1,2) by (simp add: hostInScope_def)
    with Cons.IH [OF 2(3)] show ?thesis by simp
  qed
qed

lemma rewriteLoop_returns:
  "list_all (\<lambda>c. imageOf Parse c \<noteq> None) vs \<Longrightarrow>
   \<exists>cs. rewriteLoop Parse uid vs acc = Returned cs"
  by (induction vs arbitrary: acc)
     (auto simp: imageOf_def split: option.splits result.splits)

lemma createNewTaskDefinition_Returned:
  assumes "createNewTaskDefinition Parse uid taskDef = Returned new"
  shows "list_all2 (rewrittenFrom Parse uid) (ContainerDefinitions new)
           (filter (hostInScope Parse) (ContainerDefinitions taskDef))"
    and "new\<lparr>ContainerDefinitions := ContainerDefinitions taskDef\<rparr> = taskDef"
  using assms rewriteLoop_Returned [of Parse uid "ContainerDefinitions taskDef" "[]"]
  by (auto simp: createNewTaskDefinition_def split: result.splits)

text \<open>
  When every image of the baseline parses, the transform returns a task definition;
  its containers are, in the order of the baseline, the containers whose host is the
  registry's, each with the image \<open>Name:uniqueID\<close> and nothing else changed. The
  containers on other hosts are not in the result.
\<close>

lemma createNewTaskDefinition_drops_and_rewrites:
  assumes "list_all (\<lambda>c. imageOf Parse c \<noteq> None) (ContainerDefinitions taskDef)"
  shows "\<exists>new. createNewTaskDefinition Parse uid taskDef = Returned new \<and>
           list_all2 (rewrittenFrom Parse uid) (ContainerDefinitions new)
             (filter (hostInScope Parse) (ContainerDefinitions taskDef))"
proof -
  from rewriteLoop_returns [OF assms, of uid "[]"]
  obtain new where "createNewTaskDefinition Parse uid taskDef = Returned new"
    by (auto simp: createNewTaskDefinition_def)
  with createNewTaskDefinition_Returned(1) [OF this] show ?thesis
    by blast
qed

lemma createNewTaskDefinition_drops_and_rewrites_demo:
  "list_all (\<lambda>c. imageOf demoParse c \<noteq> None) (ContainerDefinitions baseline) \<and>
   filter (hostInScope demoParse) (ContainerDefinitions baseline) = [web] \<and>
   (\<exists>new. createNewTaskDefinition demoParse demoID baseline = Returned new \<and>
      list_all2 (rewrittenFrom demoParse demoID) (ContainerDefinitions new) [web])"
proof -
  have h: "list_all (\<lambda>c. imageOf demoParse c \<noteq> None) (ContainerDefinitions baseline)"
    by (simp add: baseline_def baselineWith_def imageOf_web imageOf_sidecar)
  have f: "filter (hostInScope demoParse) (ContainerDefinitions baseline) = [web]"
    by (simp add: baseline_def baselineWith_def hostInScope_web hostInScope_sidecar)
  show ?thesis
    using h f createNewTaskDefinition_drops_and_rewrites [OF h, of demoID] by simp
qed

text \<open>
  C1. The claim: for every baseline the transform gives a result without the
  containers whose host is out of scope and with the image \<open>Name:uniqueID\<close> in the
  others. It holds when every image parses with a tag
  (\<open>createNewTaskDefinition_drops_and_rewrites\<close>). But the transform parses every
  image before it looks at the host, with the unchecked \<^verbatim>\<open>ref.(reference.Tagged)\<close> of
  \<open>parseDockerImage\<close>: for a baseline with the container \<open>web\<close> and a sidecar
  on the image \<^verbatim>\<open>nginx\<close>, whose host is empty and so out of scope, it panics. The
  sidecar is not dropped and there is no result.
\<close>

theorem createNewTaskDefinition_untagged_sidecar_panics:
  "ContainerDefinitions untaggedBaseline = [web, untaggedSidecar] \<and>
   Image untaggedSidecar = Some ''nginx'' \<and>
   demoParse ''nginx'' = Inr (repositoryRef [] ''nginx'') \<and>
   asNamed (repositoryRef [] ''nginx'') =
     Some \<lparr>NameOf = ''nginx'', SplitHostname = ([], ''nginx'')\<rparr> \<and>
   \<not> MatchString ECRRegex [] \<and>
   createNewTaskDefinition demoParse demoID untaggedBaseline = Panic"
proof -
  have c: "ContainerDefinitions untaggedBaseline = [web, untaggedSidecar]"
    by (simp add: untaggedBaseline_def baselineWith_def)
  have i: "Image untaggedSidecar = Some ''nginx''"
    by (simp add: untaggedSidecar_def)
  have w: "Image web = Some (ecrHost @ ''/app:v1'')"
    by (simp add: web_def)
  have p: "demoParse ''nginx'' = Inr (repositoryRef [] ''nginx'')"
    by (simp add: demoParse_def ecrHost_def)
  have n: "asNamed (repositoryRef [] ''nginx'') =
      Some \<lparr>NameOf = ''nginx'', SplitHostname = ([], ''nginx'')\<rparr>"
    by (simp add: repositoryRef_def joinName_def)
  have m: "\<not> MatchString ECRRegex []"
    by (simp add: ECRRegex_def plus_def)
  have u: "parseDockerImage demoParse ''nginx'' = Panic"
    by (simp add: parseDockerImage_def p repositoryRef_def)
  have "createNewTaskDefinition demoParse demoID untaggedBaseline = Panic"
    by (simp add: createNewTaskDefinition_def c i w u parse_web isECRHosted_ecrHost)
  with c i p n m show ?thesis
    by blast
qed

subsection \<open>What the transform keeps, what is registered\<close>

lemma call_trace: "call f ev s = (a, s') \<Longrightarrow> trace s' = trace s @ [ev a]"
  by (auto simp: call_def split: prod.splits)

lemma snd_call_trace: "trace (snd (call f ev s)) = trace s @ [ev (fst (f (world s)))]"
  by (auto simp: call_def split: prod.splits)

lemma rewrittenFrom_frame:
  "rewrittenFrom Parse uid c' c \<Longrightarrow> c'\<lparr>Image := Image c\<rparr> = c"
  by (auto simp: rewrittenFrom_def split: option.splits)


lemma registerTaskDefinition_request:
  "\<exists>reply. trace (snd (registerTaskDefinition env t s)) =
     trace s @ [EvRegisterTaskDefinition (registerParams t) reply]"
  by (auto simp: registerTaskDefinition_def Let_def call_def split: prod.splits sum.splits)

text \<open>
  C9. In the task definition the transform returns, every field other than the
  container list is the baseline's; each container is a container of the baseline whose
  host is in scope, equal to it in every field other than the image. The request sent
  for it has exactly the ten fields of \<open>registerTaskDefinitionInput\<close>, nine of them
  the baseline's; the revision, the ARN and the status of the baseline do not enter it.
\<close>

theorem createNewTaskDefinition_copies_whitelist:
  assumes "createNewTaskDefinition Parse uid taskDef = Returned new"
  shows "new\<lparr>ContainerDefinitions := ContainerDefinitions taskDef\<rparr> = taskDef \<and>
         list_all2 (\<lambda>c' c. c'\<lparr>Image := Image c\<rparr> = c) (ContainerDefinitions new)
           (filter (hostInScope Parse) (ContainerDefinitions taskDef)) \<and>
         (\<exists>reply. trace (snd (registerTaskDefinition env new s)) = trace s @
            [EvRegisterTaskDefinition
               \<lparr>Reg_ContainerDefinitions = ContainerDefinitions new,
                Reg_Cpu = Cpu taskDef,
                Reg_ExecutionRoleArn = ExecutionRoleArn taskDef,
                Reg_Family = Family taskDef,
                Reg_Memory = Memory taskDef,
                Reg_NetworkMode = NetworkMode taskDef,
                Reg_PlacementConstraints = PlacementConstraints taskDef,
                Reg_TaskRoleArn = TaskRoleArn taskDef,
                Reg_Volumes = Volumes taskDef,
                Reg_RequiresCompatibilities = RequiresCompatibilities taskDef\<rparr> reply]) \<and>
         createNewTaskDefinition Parse uid
           (taskDef\<lparr>Revision := rv, TaskDefinitionArn := arn, Status := st\<rparr>) =
           Returned (new\<lparr>Revision := rv, TaskDefinitionArn := arn, Status := st\<rparr>) \<and>
         registerParams (new\<lparr>Revision := rv, TaskDefinitionArn := arn, Status := st\<rparr>) =
           registerParams new"
proof -
  note r = createNewTaskDefinition_Returned [OF assms]
  have a: "new\<lparr>ContainerDefinitions := ContainerDefinitions taskDef\<rparr> = taskDef"
    by (rule r(2))
  have b: "list_all2 (\<lambda>c' c. c'\<lparr>Image := Image c\<rparr> = c) (ContainerDefinitions new)
           (filter (hostInScope Parse) (ContainerDefinitions taskDef))"
    using r(1) by (rule list_all2_mono) (rule rewrittenFrom_frame)
  have new: "new = taskDef\<lparr>ContainerDefinitions := ContainerDefinitions new\<rparr>"
    using assms by (auto simp: createNewTaskDefinition_def split: result.splits)
  have p: "registerParams new =
      \<lparr>Reg_ContainerDefinitions = ContainerDefinitions new,
       Reg_Cpu = Cpu taskDef,
       Reg_ExecutionRoleArn = ExecutionRoleArn taskDef,
       Reg_Family = Family taskDef,
       Reg_Memory = Memory taskDef,
       Reg_NetworkMode = NetworkMode taskDef,
       Reg_PlacementConstraints = PlacementConstraints taskDef,
       Reg_TaskRoleArn = TaskRoleArn taskDef,
       Reg_Volumes = Volumes taskDef,
       Reg_RequiresCompatibilities = RequiresCompatibilities taskDef\<rparr>"
    by (subst new) (simp add: registerParams_def)
  have c: "\<exists>reply. trace (snd (registerTaskDefinition env new s)) = trace s @
            [EvRegisterTaskDefinition
               \<lparr>Reg_ContainerDefinitions = ContainerDefinitions new,
                Reg_Cpu = Cpu taskDef,
                Reg_ExecutionRoleArn = ExecutionRoleArn taskDef,
                Reg_Family = Family taskDef,
                Reg_Memory = Memory taskDef,
                Reg_NetworkMode = NetworkMode taskDef,
                Reg_PlacementConstraints = PlacementConstraints taskDef,
                Reg_TaskRoleArn = TaskRoleArn taskDef,
                Reg_Volumes = Volumes taskDef,
                Reg_RequiresCompatibilities = RequiresCompatibilities taskDef\<rparr> reply]"
    using registerTaskDefinition_request [of env new s] unfolding p .
  have d: "createNewTaskDefinition Parse uid
           (taskDef\<lparr>Revision := rv, TaskDefinitionArn := arn, Status := st\<rparr>) =
           Returned (new\<lparr>Revision := rv, TaskDefinitionArn := arn, Status := st\<rparr>)"
    using assms by (auto simp: createNewTaskDefinition_def split: result.splits)
  have e: "registerParams (new\<lparr>Revision := rv, TaskDefinitionArn := arn, Status := st\<rparr>) =
           registerParams new"
    by (simp add: registerParams_def)
  from a b c d e show ?thesis by blast
qed

theorem createNewTaskDefinition_copies_whitelist_witness:
  "createNewTaskDefinition demoParse demoID baseline = Returned (baselineWith [webNew]) \<and>
   (baselineWith [webNew])\<lparr>ContainerDefinitions := ContainerDefinitions baseline\<rparr> = baseline \<and>
   list_all2 (\<lambda>c' c. c'\<lparr>Image := Image c\<rparr> = c) [webNew] [web] \<and>
   registerParams ((baselineWith [webNew])
       \<lparr>Revision := Some 7, TaskDefinitionArn := None, Status := None\<rparr>) =
     registerParams (baselineWith [webNew])"
proof -
  have f: "filter (hostInScope demoParse) (ContainerDefinitions baseline) = [web]"
    by (simp add: baseline_def baselineWith_def hostInScope_web hostInScope_sidecar)
  have n: "ContainerDefinitions (baselineWith [webNew]) = [webNew]"
    by (simp add: baselineWith_def)
  from createNewTaskDefinition_copies_whitelist
         [OF demo_transform, where rv = "Some 7" and arn = None and st = None
            and env = demoEnv and s = start]
  show ?thesis
    unfolding f n using demo_transform by blast
qed

subsection \<open>The transform on the store\<close>

lemma prefix_nth: "prefix xs ys \<Longrightarrow> i < length xs \<Longrightarrow> ys ! i = xs ! i"
  by (auto simp: prefix_def nth_append)

lemma map_nth_append_valid:
  "\<forall>p \<in> set ps. p < length xs \<Longrightarrow> map (\<lambda>p. (xs @ ys) ! p) ps = map (\<lambda>p. xs ! p) ps"
  by (simp add: nth_append)

lemma rewriteLoop_store_grows:
  "rewriteLoop_store Parse uid vps acc h = (r, h') \<Longrightarrow>
   TaskDefs h' = TaskDefs h \<and> prefix (ContainerDefs h) (ContainerDefs h')"
proof (induction vps arbitrary: acc h)
  case Nil
  then show ?case by simp
next
  case (Cons vp vps)
  from Cons.prems show ?case
    by (auto simp: Let_def newContainerDef_def
        split: if_splits option.splits result.splits
        dest!: Cons.IH dest: append_prefixD)
qed

lemma createNewTaskDefinition_store_grows:
  assumes "createNewTaskDefinition_store Parse uid taskDef h = (r, h')"
  shows "prefix (TaskDefs h) (TaskDefs h') \<and> prefix (ContainerDefs h) (ContainerDefs h')"
  using assms
  by (auto simp: createNewTaskDefinition_store_def Let_def newTaskDef_def
      split: if_splits prod.splits result.splits dest!: rewriteLoop_store_grows)

lemma createNewTaskDefinition_store_fresh:
  assumes "createNewTaskDefinition_store Parse uid taskDef h = (Returned p, h')"
  shows "taskDef < length (TaskDefs h) \<and> length (TaskDefs h) \<le> p"
proof -
  let ?t = "TaskDefs h ! taskDef"
  obtain r1 h1 where loop: "rewriteLoop_store Parse uid (ContainerDefinitions ?t) [] h = (r1, h1)"
    by (cases "rewriteLoop_store Parse uid (ContainerDefinitions ?t) [] h")
  have "TaskDefs h1 = TaskDefs h"
    using rewriteLoop_store_grows [OF loop] by simp
  with assms loop show ?thesis
    by (auto simp: createNewTaskDefinition_store_def Let_def newTaskDef_def
        split: if_splits result.splits)
qed

text \<open>
  The transform on values is the transform on the store, read through the pointers:
  when the baseline and its containers lie in the store, both give the same result.
\<close>

lemma rewriteLoop_store_refines:
  assumes "\<forall>vp \<in> set vps. vp < length (ContainerDefs h)"
      and "\<forall>p \<in> set acc. p < length (ContainerDefs h)"
      and "rewriteLoop_store Parse uid vps acc h = (r, h')"
  shows "map_result (map (\<lambda>p. ContainerDefs h' ! p)) r =
           rewriteLoop Parse uid (map (\<lambda>p. ContainerDefs h ! p) vps)
             (map (\<lambda>p. ContainerDefs h ! p) acc)"
  using assms
proof (induction vps arbitrary: acc h)
  case Nil
  then show ?case by auto
next
  case (Cons vp vps)
  let ?v = "ContainerDefs h ! vp"
  have vp: "vp < length (ContainerDefs h)"
    using Cons.prems(1) by simp
  show ?case
  proof (cases "Image ?v")
    case None
    with Cons.prems vp show ?thesis by auto
  next
    case (Some i)
    show ?thesis
    proof (cases "parseDockerImage Parse i")
      case (Returned img)
      show ?thesis
      proof (cases "isECRHosted img")
        case True
        let ?w = "?v\<lparr>Image := Some (Name img @ '':'' @ uid)\<rparr>"
        let ?h1 = "h\<lparr>ContainerDefs := ContainerDefs h @ [?w]\<rparr>"
        let ?acc1 = "acc @ [length (ContainerDefs h)]"
        have step: "rewriteLoop_store Parse uid vps ?acc1 ?h1 = (r, h')"
          using Cons.prems(3) vp Some Returned True by (simp add: newContainerDef_def)
        have cd1: "ContainerDefs ?h1 = ContainerDefs h @ [?w]"
          by simp
        have ih: "map_result (map (\<lambda>p. ContainerDefs h' ! p)) r =
           rewriteLoop Parse uid (map (\<lambda>p. (ContainerDefs h @ [?w]) ! p) vps)
             (map (\<lambda>p. (ContainerDefs h @ [?w]) ! p) ?acc1)"
        proof -
          have p1: "\<forall>vp \<in> set vps. vp < length (ContainerDefs ?h1)"
            using Cons.prems(1) by (auto simp: less_Suc_eq)
          have p2: "\<forall>p \<in> set ?acc1. p < length (ContainerDefs ?h1)"
            using Cons.prems(2) by (auto simp: less_Suc_eq)
          from Cons.IH [OF p1 p2 step] show ?thesis
            unfolding cd1 .
        qed
        have e1: "map (\<lambda>p. (ContainerDefs h @ [?w]) ! p) vps =
            map (\<lambda>p. ContainerDefs h ! p) vps"
          using Cons.prems(1) by (intro map_nth_append_valid) simp
        have e2: "map (\<lambda>p. (ContainerDefs h @ [?w]) ! p) acc =
            map (\<lambda>p. ContainerDefs h ! p) acc"
          using Cons.prems(2) by (intro map_nth_append_valid) simp
        have e3: "map (\<lambda>p. (ContainerDefs h @ [?w]) ! p) ?acc1 =
            map (\<lambda>p. ContainerDefs h ! p) acc @ [?w]"
          unfolding map_append e2 by simp
        have "map_result (map (\<lambda>p. ContainerDefs h' ! p)) r =
           rewriteLoop Parse uid (map (\<lambda>p. ContainerDefs h ! p) vps)
             (map (\<lambda>p. ContainerDefs h ! p) acc @ [?w])"
          using ih unfolding e1 e3 .
        then show ?thesis
          using Some Returned True by simp
      next
        case False
        have step: "rewriteLoop_store Parse uid vps acc h = (r, h')"
          using Cons.prems(3) vp Some Returned False by simp
        from Cons.IH [OF _ Cons.prems(2) step] Cons.prems(1) Some Returned False
        show ?thesis by simp
      qed
    next
      case (Failed e)
      with Cons.prems vp Some show ?thesis by auto
    next
      case Panic
      with Cons.prems vp Some show ?thesis by auto
    qed
  qed
qed

lemma createNewTaskDefinition_store_refines:
  assumes "taskDef < length (TaskDefs h)"
      and "\<forall>vp \<in> set (ContainerDefinitions (TaskDefs h ! taskDef)).
             vp < length (ContainerDefs h)"
      and "createNewTaskDefinition_store Parse uid taskDef h = (r, h')"
  shows "map_result (load h') r = createNewTaskDefinition Parse uid (load h taskDef)"
proof -
  let ?t = "TaskDefs h ! taskDef"
  obtain r1 h1 where
    loop: "rewriteLoop_store Parse uid (ContainerDefinitions ?t) [] h = (r1, h1)"
    by (cases "rewriteLoop_store Parse uid (ContainerDefinitions ?t) [] h")
  have ref: "map_result (map (\<lambda>p. ContainerDefs h1 ! p)) r1 =
      rewriteLoop Parse uid (map (\<lambda>p. ContainerDefs h ! p) (ContainerDefinitions ?t)) []"
    using rewriteLoop_store_refines [OF assms(2) _ loop] by simp
  have td: "TaskDefs h1 = TaskDefs h"
    using rewriteLoop_store_grows [OF loop] by simp
  have cds: "ContainerDefinitions (load h taskDef) =
      map (\<lambda>p. ContainerDefs h ! p) (ContainerDefinitions ?t)"
    by (simp add: load_def Let_def)
  show ?thesis
  proof (cases r1)
    case (Returned containers)
    with assms(1,3) loop have r: "r = Returned (length (TaskDefs h1))"
      and h': "h' = h1\<lparr>TaskDefs := TaskDefs h1 @ [?t\<lparr>ContainerDefinitions := containers\<rparr>]\<rparr>"
      by (auto simp: createNewTaskDefinition_store_def newTaskDef_def)
    from ref Returned have
      "rewriteLoop Parse uid (map (\<lambda>p. ContainerDefs h ! p) (ContainerDefinitions ?t)) []
         = Returned (map (\<lambda>p. ContainerDefs h1 ! p) containers)"
      by simp
    then show ?thesis
      unfolding r h' createNewTaskDefinition_def cds
      by (simp add: load_def Let_def td)
  next
    case (Failed e)
    with assms(1,3) loop ref [symmetric] show ?thesis
      by (auto simp: createNewTaskDefinition_store_def createNewTaskDefinition_def cds)
  next
    case Panic
    with assms(1,3) loop ref [symmetric] show ?thesis
      by (auto simp: createNewTaskDefinition_store_def createNewTaskDefinition_def cds)
  qed
qed

lemma load_unchanged:
  assumes "prefix (TaskDefs h) (TaskDefs h')" and "prefix (ContainerDefs h) (ContainerDefs h')"
      and "taskDef < length (TaskDefs h)"
      and "\<forall>vp \<in> set (ContainerDefinitions (TaskDefs h ! taskDef)).
             vp < length (ContainerDefs h)"
  shows "load h' taskDef = load h taskDef"
proof -
  have t: "TaskDefs h' ! taskDef = TaskDefs h ! taskDef"
    using assms(1,3) by (rule prefix_nth)
  have "map (\<lambda>vp. ContainerDefs h' ! vp) (ContainerDefinitions (TaskDefs h ! taskDef)) =
      map (\<lambda>vp. ContainerDefs h ! vp) (ContainerDefinitions (TaskDefs h ! taskDef))"
    using assms(2,4) by (auto simp: prefix_nth)
  then show ?thesis
    by (simp add: load_def Let_def t)
qed

text \<open>
  C10. Whatever the transform returns, every task definition struct and every
  container struct that was in the store before the call is in the store after it, at
  the same address and with the same contents: the transform writes to fresh structs
  only. So a baseline whose pointers are valid reads the same after the call, image
  fields included, and the task definition returned is not the baseline.
\<close>

theorem createNewTaskDefinition_store_keeps_baseline:
  assumes "createNewTaskDefinition_store Parse uid taskDef h = (r, h')"
  shows "prefix (TaskDefs h) (TaskDefs h') \<and> prefix (ContainerDefs h) (ContainerDefs h') \<and>
         (taskDef < length (TaskDefs h) \<and>
          (\<forall>vp \<in> set (ContainerDefinitions (TaskDefs h ! taskDef)).
             vp < length (ContainerDefs h)) \<longrightarrow>
          TaskDefs h' ! taskDef = TaskDefs h ! taskDef \<and>
          (\<forall>vp \<in> set (ContainerDefinitions (TaskDefs h ! taskDef)).
             ContainerDefs h' ! vp = ContainerDefs h ! vp) \<and>
          load h' taskDef = load h taskDef) \<and>
         (\<forall>p. r = Returned p \<longrightarrow> p \<noteq> taskDef)"
proof -
  note g = createNewTaskDefinition_store_grows [OF assms]
  have "p \<noteq> taskDef" if "r = Returned p" for p
    using createNewTaskDefinition_store_fresh [of Parse uid taskDef h p h'] assms that
    by simp
  moreover have "TaskDefs h' ! taskDef = TaskDefs h ! taskDef"
    if "taskDef < length (TaskDefs h)"
    using g that by (simp add: prefix_nth)
  moreover have "\<forall>vp \<in> set (ContainerDefinitions (TaskDefs h ! taskDef)).
             ContainerDefs h' ! vp = ContainerDefs h ! vp"
    if "\<forall>vp \<in> set (ContainerDefinitions (TaskDefs h ! taskDef)).
             vp < length (ContainerDefs h)"
    using g that by (simp add: prefix_nth)
  ultimately show ?thesis
    using g load_unchanged [of h h' taskDef] by blast
qed

lemma demo_store_run:
  "createNewTaskDefinition_store demoParse demoID 0 demoStore =
     (Returned 1, \<lparr>TaskDefs = [baselineWith [0, 1], baselineWith [2]],
                   ContainerDefs = [web, sidecar, webNew]\<rparr>)"
proof -
  have w: "Image web = Some (ecrHost @ ''/app:v1'')"
    and s: "Image sidecar = Some ''public.example/proxy:latest''"
    by (simp_all add: web_def sidecar_def)
  have loop: "rewriteLoop_store demoParse demoID [0, 1] [] demoStore =
      (Returned [2], demoStore\<lparr>ContainerDefs := [web, sidecar, webNew]\<rparr>)"
    by (simp add: demoStore_def w s parse_web parse_sidecar isECRHosted_ecrHost
        isECRHosted_public newContainerDef_def webNew_def)
  show ?thesis
    unfolding createNewTaskDefinition_store_def
    using loop by (simp add: demoStore_def baselineWith_def newTaskDef_def)
qed

theorem createNewTaskDefinition_store_keeps_baseline_witness:
  "createNewTaskDefinition_store demoParse demoID 0 demoStore =
     (Returned 1, \<lparr>TaskDefs = [baselineWith [0, 1], baselineWith [2]],
                   ContainerDefs = [web, sidecar, webNew]\<rparr>) \<and>
   0 < length (TaskDefs demoStore) \<and>
   ContainerDefinitions (TaskDefs demoStore ! 0) = [0, 1] \<and>
   length (ContainerDefs demoStore) = 2 \<and>
   load \<lparr>TaskDefs = [baselineWith [0, 1], baselineWith [2]],
         ContainerDefs = [web, sidecar, webNew]\<rparr> 0 = load demoStore 0 \<and>
   load demoStore 0 = baseline"
proof -
  have v: "0 < length (TaskDefs demoStore) \<and>
      (\<forall>vp \<in> set (ContainerDefinitions (TaskDefs demoStore ! 0)).
         vp < length (ContainerDefs demoStore))"
    by (simp add: demoStore_def baselineWith_def)
  have b: "load demoStore 0 = baseline"
    by (simp add: load_def demoStore_def baseline_def baselineWith_def)
  have c: "ContainerDefinitions (TaskDefs demoStore ! 0) = [0, 1] \<and>
      length (ContainerDefs demoStore) = 2"
    by (simp add: demoStore_def baselineWith_def)
  from createNewTaskDefinition_store_keeps_baseline [OF demo_store_run] v b c demo_store_run
  show ?thesis
    by blast
qed

subsection \<open>tagDockerImage\<close>

lemma tagDockerImage_get_fails:
  assumes "BatchGetImage env (batchGetImageParams repoName fromTag) (world s) = (Inl err, w)"
  shows "tagDockerImage env repoName fromTag toTag s =
           (Failed err, \<lparr>world = w, trace = trace s @
              [EvBatchGetImage (batchGetImageParams repoName fromTag) (Inl err)]\<rparr>)"
  using assms
  by (simp add: tagDockerImage_def call_def batchGetImageParams_def)

lemma tagDockerImage_copies_manifest:
  assumes "BatchGetImage env (batchGetImageParams repoName fromTag) (world s) = (Inr out, w1)"
      and "Images out = img0 # others"
      and "PutImage env (putImageParams (ImageManifest img0) repoName toTag) w1 = (x, w2)"
  shows "tagDockerImage env repoName fromTag toTag s =
           ((case x of None \<Rightarrow> Returned () | Some err \<Rightarrow> Failed err),
            \<lparr>world = w2, trace = trace s @
              [EvBatchGetImage (batchGetImageParams repoName fromTag) (Inr out),
               EvPutImage (putImageParams (ImageManifest img0) repoName toTag) x]\<rparr>)"
  using assms
  by (cases x)
     (simp_all add: tagDockerImage_def call_def batchGetImageParams_def putImageParams_def)

text \<open>
  C6. The claim: the retag copies the manifest under \<open>fromTag\<close> to \<open>toTag\<close>, and
  fails with an image-not-found error when there is no image under \<open>fromTag\<close>. The
  copy is as claimed (\<open>tagDockerImage_copies_manifest\<close>). But the registry answers a
  tag without image with an empty list of images and no error, and the code reads
  \<^verbatim>\<open>img.Images[0]\<close> without a check: it panics, and returns no error.
\<close>

theorem tagDockerImage_missing_image_panics:
  "BatchGetImage notFoundEnv (batchGetImageParams ''app'' ''v9'') () = (notFoundReply, ()) \<and>
   tagDockerImage notFoundEnv ''app'' ''v9'' demoID start =
     (Panic, \<lparr>world = (), trace =
        [EvBatchGetImage (batchGetImageParams ''app'' ''v9'') notFoundReply]\<rparr>)"
  by (simp add: tagDockerImage_def call_def notFoundEnv_def notFoundReply_def start_def
      batchGetImageParams_def)

subsection \<open>The scenario, run\<close>

lemma fmt_d_1: "fmt_d 1 = ''1''"
  by (simp add: fmt_d_def showNat.simps digitChar_def)

lemma fmt_d_2: "fmt_d 2 = ''2''"
  by (simp add: fmt_d_def showNat.simps digitChar_def)

lemma demo_parse: "reference_Parse demoEnv = demoParse"
  by (simp add: demoEnv_def)

lemma demo_tag:
  "tagDockerImage demoEnv repo fromTag toTag s =
     (Returned (), \<lparr>world = (), trace = trace s @
        [EvBatchGetImage (batchGetImageParams repo fromTag) demoReply,
         EvPutImage (putImageParams (ImageManifest demoManifest) repo toTag) None]\<rparr>)"
  by (simp add: tagDockerImage_def call_def demoEnv_def batchGetImageParams_def
      putImageParams_def demoReply_def)

lemma demo_retagLoop:
  "retagLoop demoEnv demoCmd demoID [web, sidecar] s =
     (Returned (), \<lparr>world = (), trace = trace s @ demoRetagWeb @ demoRetagSidecar\<rparr>)"
  by (simp add: web_def sidecar_def demo_parse parse_web parse_sidecar demo_tag demoCmd_def
      demoRetagWeb_def demoRetagSidecar_def)

lemma demo_describe:
  "call (DescribeTaskDefinition demoEnv demoArn) (EvDescribeTaskDefinition demoArn) s =
     (Inr baseline,
      \<lparr>world = (), trace = trace s @ [EvDescribeTaskDefinition demoArn (Inr baseline)]\<rparr>)"
  by (simp add: call_def demoEnv_def)

lemma demo_register:
  "registerTaskDefinition demoEnv (baselineWith [webNew]) s =
     (Returned demoRegistered, \<lparr>world = (), trace = trace s @ [demoRegister]\<rparr>)"
  by (simp add: registerTaskDefinition_def call_def demoEnv_def demoRegistered_def
      demoRegister_def registerParams_def baselineWith_def)

lemma demo_prepare:
  "prepare demoEnv cmd demoID demoService s =
     (case retagLoop demoEnv cmd demoID [web, sidecar]
             \<lparr>world = (), trace = trace s @ [EvDescribeTaskDefinition demoArn (Inr baseline)]\<rparr> of
        (Failed err, s2) \<Rightarrow> (Failed err, s2)
      | (Panic, s2) \<Rightarrow> (Panic, s2)
      | (Returned u, s2) \<Rightarrow>
          (Returned (baseline, demoRegistered),
           \<lparr>world = (), trace = trace s2 @ [demoRegister]\<rparr>))"
proof -
  have 1: "TaskDefinition demoService = Some demoArn"
    by (simp add: demoService_def demoArn_def)
  have 2: "SpecifyRevision demoEnv (revision cmd) demoArn = Inr demoArn"
    by (simp add: demoEnv_def)
  have 3: "ContainerDefinitions baseline = [web, sidecar]"
    by (simp add: baseline_def baselineWith_def)
  show ?thesis
    unfolding prepare_def
    by (simp add: 1 2 3 demo_describe demo_parse demo_transform demo_register
        del: retagLoop.simps split: prod.splits result.splits)
qed

lemma demo_rollout:
  "rollout demoEnv demoCmd demoService baseline demoRegistered s =
     (Returned (), \<lparr>world = (), trace = trace s @ demoAnnounce @
        [EvWaitUpdateService ''prod'' ''app'' None, EvPushState 2 ''deploy: 1 -> 2'' None] @
        demoFinish\<rparr>)"
  by (simp add: rollout_def Let_def call_def demoEnv_def demoRegistered_def baseline_def
      baselineWith_def deployMessage_def historyMessage_def fmt_d_1 fmt_d_2 demoAnnounce_def
      demoFinish_def demoCmd_def)

lemma demo_connect:
  "images cmd \<noteq> [] \<Longrightarrow> cluster cmd = ''prod'' \<Longrightarrow> serviceName cmd = ''app'' \<Longrightarrow>
   backend cmd = ''SSM'' \<Longrightarrow>
   checkFlags cmd = None \<and>
   connect demoEnv cmd start = (Returned demoService, \<lparr>world = (), trace = demoSetup\<rparr>)"
  by (simp add: checkFlags_def connect_def call_def demoEnv_def start_def demoService_def
      demoSetup_def)

lemma demo_ulid:
  "call (NewULID demoEnv) EvNewULID s =
     (demoID, \<lparr>world = (), trace = trace s @ [EvNewULID demoID]\<rparr>)"
  by (simp add: call_def demoEnv_def)

lemma demo_execute:
  "execute demoEnv demoCmd start = (Returned (), \<lparr>world = (), trace = demoTrace\<rparr>)"
proof -
  have c: "checkFlags demoCmd = None \<and>
      connect demoEnv demoCmd start = (Returned demoService, \<lparr>world = (), trace = demoSetup\<rparr>)"
    by (rule demo_connect) (simp_all add: demoCmd_def)
  show ?thesis
    unfolding execute_def
    by (simp add: c demo_ulid demo_prepare demo_retagLoop demo_rollout demoPrepare_def
        demoTrace_def del: retagLoop.simps)
qed

lemma appOnly_execute:
  "execute demoEnv appOnlyCmd start =
     (Failed (Error ''can not found image option proxy''),
      \<lparr>world = (), trace = demoSetup @
         [EvNewULID demoID, EvDescribeTaskDefinition demoArn (Inr baseline)] @
         demoRetagWeb\<rparr>)"
proof -
  have c: "checkFlags appOnlyCmd = None \<and>
      connect demoEnv appOnlyCmd start =
        (Returned demoService, \<lparr>world = (), trace = demoSetup\<rparr>)"
    by (rule demo_connect) (simp_all add: appOnlyCmd_def demoCmd_def)
  have l: "retagLoop demoEnv appOnlyCmd demoID [web, sidecar] s =
      (Failed (Error ''can not found image option proxy''),
       \<lparr>world = (), trace = trace s @ demoRetagWeb\<rparr>)" for s
    by (simp add: web_def sidecar_def demo_parse parse_web parse_sidecar demo_tag
        appOnlyCmd_def demoCmd_def demoRetagWeb_def)
  show ?thesis
    unfolding execute_def
    by (simp add: c demo_ulid demo_prepare l del: retagLoop.simps)
qed

lemma busy_execute:
  "execute busyEnv demoCmd start =
     (Failed (Error ''app is currently deploying''),
      \<lparr>world = (), trace =
         [EvGetAWSRegion ''us-east-1'', EvNewSession None,
          EvNewHistoryManager ''SSM'' ''prod'' ''app'' None,
          EvDescribeService ''prod'' ''app'' (Inr busyService)]\<rparr>)"
  by (simp add: execute_def checkFlags_def connect_def call_def busyEnv_def demoEnv_def
      demoCmd_def start_def busyService_def demoService_def)

subsection \<open>The calls of each stage\<close>

lemma isSetup_kind:
  "isSetup e \<Longrightarrow>
   \<not> isRetag e \<and> \<not> isRegister e \<and> \<not> isNewULID e \<and> \<not> isPushState e \<and> \<not> isWait e \<and>
   \<not> changesState e"
  by (cases e) simp_all

lemma retagsTo_kind:
  "retagsTo uid e \<Longrightarrow>
   isRetag e \<and> \<not> isRegister e \<and> \<not> isNewULID e \<and> \<not> isPushState e \<and> \<not> isWait e \<and>
   \<not> isSetup e"
  by (cases e) simp_all

lemma isRollout_kind:
  "isRollout e \<Longrightarrow> \<not> isRetag e \<and> \<not> isRegister e \<and> \<not> isNewULID e \<and> \<not> isSetup e"
  by (cases e) simp_all


lemma connect_trace:
  assumes "connect env f s = (r, s')"
  shows "\<exists>evs. trace s' = trace s @ evs \<and> list_all isSetup evs \<and>
           (\<forall>c n svc. EvDescribeService c n (Inr svc) \<in> set evs \<longrightarrow>
              (if 1 < length (Deployments svc)
               then r = Failed (Error (serviceName f @ '' is currently deploying''))
               else r = Returned svc))"
  using assms unfolding connect_def
  by (auto split: prod.splits option.splits sum.splits if_splits dest!: call_trace)

lemma tagDockerImage_trace:
  assumes "tagDockerImage env repo fromTag toTag s = (r, s')"
  shows "\<exists>evs. trace s' = trace s @ evs \<and> list_all (retagsTo toTag) evs \<and>
           (r = Returned () \<longrightarrow> list_ex (wrote repo toTag) evs)"
  using assms unfolding tagDockerImage_def Let_def
  by (auto split: prod.splits option.splits sum.splits if_splits list.splits
      dest!: call_trace)

lemma retagLoop_trace:
  "retagLoop env f uid cs s = (r, s') \<Longrightarrow>
   \<exists>evs. trace s' = trace s @ evs \<and> list_all (retagsTo uid) evs \<and>
     (r = Returned () \<longrightarrow>
        (\<forall>c \<in> set cs. \<exists>img. imageOf (reference_Parse env) c = Some img \<and>
            list_ex (wrote (RepositoryName img) uid) evs))"
proof (induction cs arbitrary: s)
  case Nil
  then show ?case by simp
next
  case (Cons c cs)
  show ?case
  proof (cases "\<exists>img opt s1. imageOf (reference_Parse env) c = Some img \<and>
      imageOptions_Get (images f) (RepositoryName img) = Some opt \<and>
      tagDockerImage env (RepositoryName img) (Opt_Tag opt) uid s = (Returned (), s1)")
    case True
    then obtain img opt s1 where img: "imageOf (reference_Parse env) c = Some img"
      and opt: "imageOptions_Get (images f) (RepositoryName img) = Some opt"
      and tag: "tagDockerImage env (RepositoryName img) (Opt_Tag opt) uid s = (Returned (), s1)"
      by blast
    from img opt tag Cons.prems have rest: "retagLoop env f uid cs s1 = (r, s')"
      by (auto simp: imageOf_def split: option.splits result.splits)
    from tagDockerImage_trace [OF tag] obtain e1 where e1: "trace s1 = trace s @ e1"
      "list_all (retagsTo uid) e1" "list_ex (wrote (RepositoryName img) uid) e1"
      by blast
    from Cons.IH [OF rest] obtain e2 where e2: "trace s' = trace s1 @ e2"
      "list_all (retagsTo uid) e2"
      "r = Returned () \<longrightarrow>
         (\<forall>c \<in> set cs. \<exists>img. imageOf (reference_Parse env) c = Some img \<and>
            list_ex (wrote (RepositoryName img) uid) e2)"
      by blast
    have "trace s' = trace s @ (e1 @ e2)"
      using e1(1) e2(1) by simp
    moreover have "list_all (retagsTo uid) (e1 @ e2)"
      using e1(2) e2(2) by simp
    moreover have "r = Returned () \<longrightarrow>
        (\<forall>c' \<in> set (c # cs). \<exists>img. imageOf (reference_Parse env) c' = Some img \<and>
            list_ex (wrote (RepositoryName img) uid) (e1 @ e2))"
      using img e1(3) e2(3) by (auto simp: list_ex_iff)
    ultimately show ?thesis by blast
  next
    case False
    with Cons.prems have "r \<noteq> Returned ()" and
      "s' = s \<or> (\<exists>repo tg. tagDockerImage env repo tg uid s = (r, s'))"
      by (auto simp: imageOf_def split: option.splits result.splits prod.splits)
    then show ?thesis
      by (auto dest!: tagDockerImage_trace)
  qed
qed

lemma registerTaskDefinition_trace:
  "registerTaskDefinition env t s = (r, s') \<Longrightarrow>
   \<exists>y. trace s' = trace s @ [EvRegisterTaskDefinition (registerParams t) y] \<and>
       (case r of Returned reg \<Rightarrow> y = Inr reg | Failed e \<Rightarrow> y = Inl e | Panic \<Rightarrow> False)"
  by (auto simp: registerTaskDefinition_def Let_def split: prod.splits sum.splits
      dest!: call_trace)

text \<open>
  \<open>prepare\<close> either stops before the registration, having described the baseline
  and retagged some containers at most, or it retags every container of the baseline
  and then sends the registration request for the transformed task definition.
\<close>

lemma prepare_cases:
  assumes "prepare env f uid svc s = (r, s')"
  obtains (stopped) arn x R where
      "trace s' = trace s \<or> trace s' = trace s @ EvDescribeTaskDefinition arn x # R"
      "list_all (retagsTo uid) R" "\<forall>x. r \<noteq> Returned x"
    | (registered) arn taskDef R new y where
      "trace s' = trace s @ EvDescribeTaskDefinition arn (Inr taskDef) # R @
         [EvRegisterTaskDefinition (registerParams new) y]"
      "list_all (retagsTo uid) R"
      "createNewTaskDefinition (reference_Parse env) uid taskDef = Returned new"
      "\<forall>c \<in> set (ContainerDefinitions taskDef).
         \<exists>img. imageOf (reference_Parse env) c = Some img \<and>
           list_ex (wrote (RepositoryName img) uid) R"
      "case r of Returned (t, reg) \<Rightarrow> t = taskDef \<and> y = Inr reg
         | Failed e \<Rightarrow> y = Inl e | Panic \<Rightarrow> False"
proof (cases "TaskDefinition svc")
  case None
  with assms have "trace s' = trace s" "\<forall>x. r \<noteq> Returned x"
    by (auto simp: prepare_def)
  then show ?thesis
    using stopped [of undefined undefined "[]"] by simp
next
  case (Some arn0)
  show ?thesis
  proof (cases "SpecifyRevision env (revision f) arn0")
    case (Inl e)
    with assms Some have "trace s' = trace s" "\<forall>x. r \<noteq> Returned x"
      by (auto simp: prepare_def)
    then show ?thesis
      using stopped [of undefined undefined "[]"] by simp
  next
    case (Inr arn)
    obtain x s1 where
      d: "call (DescribeTaskDefinition env arn) (EvDescribeTaskDefinition arn) s = (x, s1)"
      by (cases "call (DescribeTaskDefinition env arn) (EvDescribeTaskDefinition arn) s")
    have t1: "trace s1 = trace s @ [EvDescribeTaskDefinition arn x]"
      using call_trace [OF d] .
    show ?thesis
    proof (cases x)
      case (Inl e)
      with assms Some Inr d have "s' = s1" "\<forall>x. r \<noteq> Returned x"
        by (auto simp: prepare_def)
      with t1 show ?thesis
        using stopped [of arn x "[]"] by simp
    next
      case xr: (Inr taskDef)
      show ?thesis
      proof (cases "createNewTaskDefinition (reference_Parse env) uid taskDef")
        case (Returned new)
        obtain r2 s2 where
          l: "retagLoop env f uid (ContainerDefinitions taskDef) s1 = (r2, s2)"
          by (cases "retagLoop env f uid (ContainerDefinitions taskDef) s1")
        from retagLoop_trace [OF l] obtain R where R: "trace s2 = trace s1 @ R"
          "list_all (retagsTo uid) R"
          "r2 = Returned () \<longrightarrow> (\<forall>c \<in> set (ContainerDefinitions taskDef).
             \<exists>img. imageOf (reference_Parse env) c = Some img \<and>
               list_ex (wrote (RepositoryName img) uid) R)"
          by blast
        show ?thesis
        proof (cases "r2 = Returned ()")
          case True
          obtain r3 s3 where g: "registerTaskDefinition env new s2 = (r3, s3)"
            by (cases "registerTaskDefinition env new s2")
          from registerTaskDefinition_trace [OF g] obtain y where
            y: "trace s3 = trace s2 @ [EvRegisterTaskDefinition (registerParams new) y]"
            "case r3 of Returned reg \<Rightarrow> y = Inr reg | Failed e \<Rightarrow> y = Inl e
               | Panic \<Rightarrow> False"
            by blast
          from assms Some Inr d xr Returned l True g have s': "s' = s3"
            and r: "r = (case r3 of Returned reg \<Rightarrow> Returned (taskDef, reg)
                         | Failed e \<Rightarrow> Failed e | Panic \<Rightarrow> Panic)"
            by (auto simp: prepare_def split: result.splits)
          have "trace s' = trace s @ EvDescribeTaskDefinition arn (Inr taskDef) # R @
             [EvRegisterTaskDefinition (registerParams new) y]"
            using s' y(1) R(1) t1 xr by simp
          moreover have "case r of Returned (t, reg) \<Rightarrow> t = taskDef \<and> y = Inr reg
             | Failed e \<Rightarrow> y = Inl e | Panic \<Rightarrow> False"
            using r y(2) by (cases r3) auto
          ultimately show ?thesis
            using registered [of arn taskDef R new y] R(2,3) Returned True by blast
        next
          case False
          with assms Some Inr d xr Returned l have "s' = s2" "\<forall>x. r \<noteq> Returned x"
            by (auto simp: prepare_def split: result.splits)
          with t1 R(1,2) show ?thesis
            using stopped [of arn x R] by simp
        qed
      next
        case (Failed e)
        with assms Some Inr d xr have "s' = s1" "\<forall>x. r \<noteq> Returned x"
          by (auto simp: prepare_def)
        with t1 show ?thesis
          using stopped [of arn x "[]"] by simp
      next
        case Panic
        with assms Some Inr d xr have "s' = s1" "\<forall>x. r \<noteq> Returned x"
          by (auto simp: prepare_def)
        with t1 show ?thesis
          using stopped [of arn x "[]"] by simp
      qed
    qed
  qed
qed

lemma prepare_kinds:
  assumes "prepare env f uid svc s = (r, s')"
  shows "\<exists>B. trace s' = trace s @ B \<and>
    list_all (\<lambda>e. \<not> isSetup e \<and> \<not> isNewULID e \<and> \<not> isWait e \<and> \<not> isPushState e) B"
  using assms
proof (cases rule: prepare_cases)
  case (stopped arn x R)
  from stopped(1) show ?thesis
  proof
    assume "trace s' = trace s"
    then show ?thesis by simp
  next
    assume "trace s' = trace s @ EvDescribeTaskDefinition arn x # R"
    with stopped(2) show ?thesis
      by (auto simp: list_all_iff dest: retagsTo_kind)
  qed
next
  case (registered arn taskDef R new y)
  then show ?thesis
    by (auto simp: list_all_iff dest: retagsTo_kind)
qed


text \<open>
  \<open>rollout\<close> either stops without a history entry, or it has announced, updated
  the service and waited with success before it calls \<^verbatim>\<open>PushState\<close>.
\<close>

lemma rollout_cases:
  assumes "rollout env f svc taskDef reg s = (r, s')"
  obtains (quiet) C where "trace s' = trace s @ C"
      "list_all (\<lambda>e. isRollout e \<and> \<not> isPushState e) C" "\<forall>u. r \<noteq> Returned u"
    | (pushed) old new x post where
      "Revision taskDef = Some old" "Revision reg = Some new"
      "trace s' = trace s @
         [EvLog (deployMessage old new) (), EvSlack ''normal'' (deployMessage old new) (),
          EvUpdateService svc reg None, EvLog (''service updating'' @ newline) (),
          EvWaitUpdateService (cluster f) (serviceName f) None,
          EvPushState new (historyMessage old new) x] @ post"
      "(\<exists>e. x = Some e \<and> r = Failed e \<and> post = []) \<or>
       (x = None \<and> r = Returned () \<and>
        post = [EvLog (''successfully updated'' @ newline) (),
                EvSlack ''good'' (''successfully updated'' @ newline) ()])"
  using assms unfolding rollout_def Let_def
  by (auto simp: snd_call_trace split: option.splits prod.splits dest!: call_trace)

lemma rollout_kinds:
  assumes "rollout env f svc taskDef reg s = (r, s')"
  obtains C where "trace s' = trace s @ C" "list_all isRollout C"
  using assms
  by (cases rule: rollout_cases) (auto simp: list_all_iff deployMessage_def)

text \<open>
  \<open>execute\<close> either stops during the setup, or it generates the identifier and
  runs \<open>prepare\<close>, and \<open>rollout\<close> after it when \<open>prepare\<close> returns.
\<close>

lemma execute_cases:
  assumes "execute env f s = (r, s')"
  obtains (halted) A where "trace s' = trace s @ A" "list_all isSetup A"
      "\<forall>u. r \<noteq> Returned u"
      "\<forall>c n svc. EvDescribeService c n (Inr svc) \<in> set A \<longrightarrow>
         1 < length (Deployments svc) \<and>
         r = Failed (Error (serviceName f @ '' is currently deploying''))"
    | (started) A svc uid s2 r2 s3 where "trace s2 = trace s @ A @ [EvNewULID uid]"
      "list_all isSetup A"
      "\<forall>c n svc'. EvDescribeService c n (Inr svc') \<in> set A \<longrightarrow>
         \<not> 1 < length (Deployments svc')"
      "prepare env f uid svc s2 = (r2, s3)"
      "((\<forall>x. r2 \<noteq> Returned x) \<and> s' = s3 \<and> (\<forall>u. r \<noteq> Returned u)) \<or>
       (\<exists>taskDef reg. r2 = Returned (taskDef, reg) \<and>
          rollout env f svc taskDef reg s3 = (r, s'))"
proof (cases "checkFlags f")
  case (Some e)
  with assms have "trace s' = trace s @ []" "\<forall>u. r \<noteq> Returned u"
    by (auto simp: execute_def)
  then show ?thesis
    using halted [of "[]"] by simp
next
  case None
  obtain r0 s1 where c: "connect env f s = (r0, s1)"
    by (cases "connect env f s")
  from connect_trace [OF c] obtain A where A: "trace s1 = trace s @ A" "list_all isSetup A"
    "\<forall>c n svc. EvDescribeService c n (Inr svc) \<in> set A \<longrightarrow>
              (if 1 < length (Deployments svc)
               then r0 = Failed (Error (serviceName f @ '' is currently deploying''))
               else r0 = Returned svc)"
    by blast
  show ?thesis
  proof (cases "\<exists>svc. r0 = Returned svc")
    case False
    with assms None c have "s' = s1" "\<forall>u. r \<noteq> Returned u"
      and "case r0 of Failed e \<Rightarrow> r = Failed e | Panic \<Rightarrow> r = Panic
             | Returned v \<Rightarrow> False"
      by (auto simp: execute_def split: result.splits)
    moreover have "\<forall>c n svc. EvDescribeService c n (Inr svc) \<in> set A \<longrightarrow>
         1 < length (Deployments svc) \<and>
         r0 = Failed (Error (serviceName f @ '' is currently deploying''))"
      using A(3) False by (metis (full_types))
    ultimately show ?thesis
      using A(1,2) by (intro halted [of A]) (auto split: result.splits)
  next
    case True
    then obtain svc where svc: "r0 = Returned svc"
      by blast
    obtain uid s2 where u: "call (NewULID env) EvNewULID s1 = (uid, s2)"
      by (cases "call (NewULID env) EvNewULID s1")
    obtain r2 s3 where p: "prepare env f uid svc s2 = (r2, s3)"
      by (cases "prepare env f uid svc s2")
    have "trace s2 = trace s @ A @ [EvNewULID uid]"
      using call_trace [OF u] A(1) by simp
    moreover have "\<forall>c n svc'. EvDescribeService c n (Inr svc') \<in> set A \<longrightarrow>
        \<not> 1 < length (Deployments svc')"
      using A(3) svc by (auto split: if_splits)
    moreover have "((\<forall>x. r2 \<noteq> Returned x) \<and> s' = s3 \<and> (\<forall>u. r \<noteq> Returned u)) \<or>
       (\<exists>taskDef reg. r2 = Returned (taskDef, reg) \<and>
          rollout env f svc taskDef reg s3 = (r, s'))"
      using assms None c svc u p by (auto simp: execute_def split: result.splits)
    ultimately show ?thesis
      using started [of s2 A uid svc r2 s3] A(2) p by blast
  qed
qed

subsection \<open>The order of the calls of execute\<close>

text \<open>
  C4. When the service described at the start of the attempt has more than one
  deployment, \<open>execute\<close> returns the error that the service is deploying, and the
  attempt has made no call of the retag operation and no call that changes the registry,
  the platform or the history: no registration, no update of the service.
\<close>

theorem execute_aborts_when_deploying:
  assumes "execute env f s = (r, s')" and "trace s = []"
      and "EvDescribeService c n (Inr svc) \<in> set (trace s')"
      and "1 < length (Deployments svc)"
  shows "r = Failed (Error (serviceName f @ '' is currently deploying'')) \<and>
         list_all (\<lambda>e. \<not> isRetag e \<and> \<not> changesState e) (trace s')"
  using assms(1)
proof (cases rule: execute_cases)
  case (halted A)
  with assms(2,3,4) show ?thesis
    by (auto simp: list_all_iff dest: isSetup_kind)
next
  case (started A svc' uid s2 r2 s3)
  from prepare_kinds [OF started(4)]
  have B: "\<forall>c n x. EvDescribeService c n x \<notin> set (trace s3) - set (trace s2)"
    by (force simp: list_all_iff)
  from started(5)
  have C: "\<forall>c n x. EvDescribeService c n x \<notin> set (trace s') - set (trace s3)"
    by (elim disjE conjE exE rollout_kinds) (force simp: list_all_iff)+
  from B C assms(3) have "EvDescribeService c n (Inr svc) \<in> set (trace s2)"
    by blast
  with started(1,3) assms(2,4) show ?thesis
    by auto
qed

theorem execute_aborts_when_deploying_witness:
  "execute busyEnv demoCmd start =
     (Failed (Error ''app is currently deploying''),
      \<lparr>world = (), trace =
         [EvGetAWSRegion ''us-east-1'', EvNewSession None,
          EvNewHistoryManager ''SSM'' ''prod'' ''app'' None,
          EvDescribeService ''prod'' ''app'' (Inr busyService)]\<rparr>) \<and>
   trace start = [] \<and> 1 < length (Deployments busyService) \<and>
   list_all (\<lambda>e. \<not> isRetag e \<and> \<not> changesState e)
     [EvGetAWSRegion ''us-east-1'', EvNewSession None,
      EvNewHistoryManager ''SSM'' ''prod'' ''app'' None,
      EvDescribeService ''prod'' ''app'' (Inr busyService)]"
proof -
  have s: "trace start = []"
    by (simp add: start_def)
  have d: "1 < length (Deployments busyService)"
    by (simp add: busyService_def)
  have m: "EvDescribeService ''prod'' ''app'' (Inr busyService) \<in> set (trace
      \<lparr>world = (), trace =
         [EvGetAWSRegion ''us-east-1'', EvNewSession None,
          EvNewHistoryManager ''SSM'' ''prod'' ''app'' None,
          EvDescribeService ''prod'' ''app'' (Inr busyService)]\<rparr>)"
    by simp
  from execute_aborts_when_deploying [OF busy_execute s m d] busy_execute s d
  show ?thesis
    by simp
qed

text \<open>
  C3. When the trace of an attempt holds a registration request, it holds one only:
  no call after it is a retag call or a registration, no call before it is a
  registration. Before it the identifier was generated and the baseline described, and
  for every container of the baseline whose host is in scope a manifest was written
  with success under the identifier in the repository of its image. The containers of
  the request are these containers, with the image \<open>Name:uniqueID\<close>.
\<close>

theorem retags_precede_registration:
  assumes "execute env f s = (r, s')" and "trace s = []"
      and "EvRegisterTaskDefinition p y \<in> set (trace s')"
  shows "\<exists>pre post uid arn taskDef.
           trace s' = pre @ EvRegisterTaskDefinition p y # post \<and>
           list_all (\<lambda>e. \<not> isRetag e \<and> \<not> isRegister e) post \<and>
           list_all (\<lambda>e. \<not> isRegister e) pre \<and>
           EvNewULID uid \<in> set pre \<and>
           EvDescribeTaskDefinition arn (Inr taskDef) \<in> set pre \<and>
           (\<forall>c \<in> set (ContainerDefinitions taskDef).
              hostInScope (reference_Parse env) c \<longrightarrow>
              (\<exists>img. imageOf (reference_Parse env) c = Some img \<and>
                 list_ex (wrote (RepositoryName img) uid) pre)) \<and>
           list_all2 (rewrittenFrom (reference_Parse env) uid) (Reg_ContainerDefinitions p)
             (filter (hostInScope (reference_Parse env)) (ContainerDefinitions taskDef))"
  using assms(1)
proof (cases rule: execute_cases)
  case (halted A)
  with assms(2) have "list_all (\<lambda>e. \<not> isRegister e) (trace s')"
    by (auto simp: list_all_iff dest: isSetup_kind)
  with assms(3) have False
    by (force simp: list_all_iff)
  then show ?thesis ..
next
  case (started A svc uid s2 r2 s3)
  from started(5) obtain C where C: "trace s' = trace s3 @ C" "list_all isRollout C"
    by (elim disjE conjE exE rollout_kinds) auto
  have A: "list_all (\<lambda>e. \<not> isRegister e) A"
    using started(2) by (auto simp: list_all_iff dest: isSetup_kind)
  have C': "list_all (\<lambda>e. \<not> isRetag e \<and> \<not> isRegister e) C"
    using C(2) by (auto simp: list_all_iff dest: isRollout_kind)
  from started(4) show ?thesis
  proof (cases rule: prepare_cases)
    case (stopped arn x R)
    have "list_all (\<lambda>e. \<not> isRegister e) R"
      using stopped(2) by (auto simp: list_all_iff dest: retagsTo_kind)
    with stopped(1) started(1) assms(2) A C C'
    have "list_all (\<lambda>e. \<not> isRegister e) (trace s')"
      by (auto simp: list_all_iff)
    with assms(3) have False
      by (force simp: list_all_iff)
    then show ?thesis ..
  next
    case (registered arn taskDef R new y')
    let ?pre = "A @ EvNewULID uid # EvDescribeTaskDefinition arn (Inr taskDef) # R"
    have R: "list_all (\<lambda>e. \<not> isRegister e) R"
      using registered(2) by (auto simp: list_all_iff dest: retagsTo_kind)
    have t: "trace s' = ?pre @ EvRegisterTaskDefinition (registerParams new) y' # C"
      using registered(1) started(1) assms(2) C(1) by simp
    have "EvRegisterTaskDefinition p y = EvRegisterTaskDefinition (registerParams new) y'"
      using assms(3) A R C' unfolding t by (auto simp: list_all_iff)
    then have py: "p = registerParams new" "y = y'"
      by simp_all
    have cov: "\<forall>c \<in> set (ContainerDefinitions taskDef).
        hostInScope (reference_Parse env) c \<longrightarrow>
          (\<exists>img. imageOf (reference_Parse env) c = Some img \<and>
             list_ex (wrote (RepositoryName img) uid) ?pre)"
      using registered(4) by (fastforce simp: list_ex_iff)
    have rw: "list_all2 (rewrittenFrom (reference_Parse env) uid)
        (Reg_ContainerDefinitions p)
        (filter (hostInScope (reference_Parse env)) (ContainerDefinitions taskDef))"
      using createNewTaskDefinition_Returned(1) [OF registered(3)]
      by (simp add: py registerParams_def)
    have "list_all (\<lambda>e. \<not> isRegister e) ?pre"
      using A R by simp
    moreover have "EvNewULID uid \<in> set ?pre"
      by simp
    moreover have "EvDescribeTaskDefinition arn (Inr taskDef) \<in> set ?pre"
      by simp
    ultimately show ?thesis
      using t C' cov rw unfolding py by blast
  qed
qed

lemma demoTrace_register: "demoRegister \<in> set demoTrace"
  by (simp add: demoTrace_def demoPrepare_def)

theorem retags_precede_registration_witness:
  "execute demoEnv demoCmd start = (Returned (), \<lparr>world = (), trace = demoTrace\<rparr>) \<and>
   trace start = [] \<and> demoRegister \<in> set demoTrace \<and>
   (\<exists>pre post. demoTrace = pre @ demoRegister # post \<and>
      list_all (\<lambda>e. \<not> isRetag e \<and> \<not> isRegister e) post \<and>
      list_all (\<lambda>e. \<not> isRegister e) pre)"
proof -
  have s: "trace start = []"
    by (simp add: start_def)
  have m: "EvRegisterTaskDefinition (registerParams (baselineWith [webNew]))
      (Inr demoRegistered) \<in> set (trace \<lparr>world = (), trace = demoTrace\<rparr>)"
    using demoTrace_register by (simp add: demoRegister_def)
  from retags_precede_registration [OF demo_execute s m]
  have "\<exists>pre post. demoTrace = pre @ demoRegister # post \<and>
      list_all (\<lambda>e. \<not> isRetag e \<and> \<not> isRegister e) post \<and>
      list_all (\<lambda>e. \<not> isRegister e) pre"
    unfolding demoRegister_def by auto
  with demo_execute s demoTrace_register show ?thesis
    by blast
qed





subsection \<open>The identifier of the attempt\<close>


lemma demoTrace_put:
  "EvPutImage (putImageParams (ImageManifest demoManifest) ''proxy'' demoID) None
     \<in> set demoTrace"
  by (simp add: demoTrace_def demoPrepare_def demoRetagSidecar_def)




subsection \<open>Which containers are retagged\<close>

text \<open>
  C2. The claim: only containers whose host is in scope are retagged, and a container
  out of scope needs no image option. The loop of \<open>execute\<close> goes through every
  container of the baseline and does not ask \<open>isECRHosted\<close>, as
  \<open>createNewTaskDefinition\<close> does. In the scenario the host of \<open>sidecar\<close> is out of
  scope: without an option for its repository the attempt fails with the error of the
  missing option, after it has retagged \<open>web\<close>; with an option a manifest is written
  for its repository.
\<close>

theorem retag_loop_ignores_scope:
  "\<not> hostInScope demoParse sidecar \<and>
   execute demoEnv appOnlyCmd start =
     (Failed (Error ''can not found image option proxy''),
      \<lparr>world = (), trace = demoSetup @
         [EvNewULID demoID, EvDescribeTaskDefinition demoArn (Inr baseline)] @
         demoRetagWeb\<rparr>) \<and>
   execute demoEnv demoCmd start = (Returned (), \<lparr>world = (), trace = demoTrace\<rparr>) \<and>
   EvPutImage (putImageParams (ImageManifest demoManifest) ''proxy'' demoID) None
     \<in> set demoTrace"
  using hostInScope_sidecar appOnly_execute demo_execute demoTrace_put
  by blast

end
